theory Spec2Isabelle
  imports Main "HOL-Library.Multiset" "HOL-Library.Word"
begin

section \<open>Shared vocabulary\<close>

text \<open>
  Go strings and byte slices are byte sequences; both are modelled as \<open>string\<close>.
  \<open>int64\<close> fields are 64-bit words.
\<close>

type_synonym bytes = string
type_synonym int64 = "64 word"

abbreviation nl :: string where
  "nl \<equiv> [CHR 0x0A]"

abbreviation dq :: string where
  "dq \<equiv> [CHR 0x22]"

text \<open>
  Go errors. The Kubernetes client's errors are told apart by \<open>errors.IsNotFound\<close> and
  \<open>errors.IsAlreadyExists\<close>; \<open>fmt.Errorf("msg: %w", err)\<close> wraps an error with a message.
\<close>

datatype error =
    NotFound
  | AlreadyExists
  | Failure string
  | Wrap string error

section \<open>api/v1alpha1: the declared-state types\<close>

text \<open>
  The custom resources, with the fields that the functions modelled below read or write.
  Object metadata is reduced to name and namespace (and the annotations of a
  \<open>NatsAuthConfig\<close>); a nil pointer is \<open>None\<close>.
\<close>

record Permissions =
  PublishAllow :: "string list"
  PublishDeny :: "string list"
  SubscribeAllow :: "string list"
  SubscribeDeny :: "string list"

record SecretRef =
  sr_Name :: string
  sr_Namespace :: string

record NatsAuthConfigRef =
  acr_Name :: string
  acr_Namespace :: string

record NatsAccountRef =
  nar_Name :: string
  nar_Namespace :: string

record JetStreamLimits =
  MemoryStorage :: int64
  DiskStorage :: int64
  Streams :: int64
  Consumer :: int64
  MaxAckPending :: int64
  MemoryMaxStreamBytes :: int64
  DiskMaxStreamBytes :: int64
  MaxBytesRequired :: bool

record AccountLimits =
  Conn :: int64
  Subs :: int64
  Payload :: int64
  Data :: int64
  Exports :: int64
  Imports :: int64
  WildcardExports :: bool
  JetStream :: "JetStreamLimits option"

record NatsAccountSpec =
  as_AuthConfigRef :: NatsAuthConfigRef
  as_Description :: string
  as_Limits :: "AccountLimits option"
  as_ExistingSeedSecret :: "SecretRef option"

record NatsAccountStatus =
  ast_AccountID :: string
  ast_PublicKey :: string
  ast_JWTSecretRef :: SecretRef

record NatsAccount =
  acct_Name :: string
  acct_Namespace :: string
  acct_Spec :: NatsAccountSpec
  acct_Status :: NatsAccountStatus

record PasswordSource =
  Generate :: bool
  ps_SecretRef :: "SecretRef option"

record NatsUserSpec =
  us_AuthConfigRef :: NatsAuthConfigRef
  us_AccountRef :: "NatsAccountRef option"
  us_Username :: string
  us_PasswordFrom :: "PasswordSource option"
  us_Permissions :: "Permissions option"
  us_ExistingSeedSecret :: "SecretRef option"

record NatsUserStatus =
  ust_SecretRef :: SecretRef
  ust_PublicKey :: string

record NatsUser =
  user_Name :: string
  user_Namespace :: string
  user_Spec :: NatsUserSpec
  user_Status :: NatsUserStatus

record ServerAuthConfigRef =
  sac_Name :: string
  sac_Namespace :: string
  sac_Key :: string
  sac_Type :: string

record OperatorSeedSecretRef =
  oss_Name :: string
  oss_Namespace :: string
  oss_Key :: string

record JWTConfig =
  ResolverDir :: string
  OperatorSeedSecret :: "OperatorSeedSecretRef option"
  OperatorName :: string

record NatsAuthConfigSpec =
  cs_NatsURL :: string
  cs_ServerAuthConfig :: ServerAuthConfigRef
  cs_JWT :: "JWTConfig option"

record NatsAuthConfigStatus =
  OperatorPubKey :: string
  ResolverReady :: bool

record NatsAuthConfig =
  cfg_Name :: string
  cfg_Namespace :: string
  cfg_Annotations :: "string \<rightharpoonup> string"
  cfg_Spec :: NatsAuthConfigSpec
  cfg_Status :: NatsAuthConfigStatus

section \<open>internal/authconf/render.go\<close>

record TokenUser =
  Username :: string
  Password :: string
  Token :: string
  Permissions :: "Permissions option"

record AccountJWT =
  AccountName :: string
  AccountID :: string
  JWT :: string

text \<open>
  \<open>fmt.Sprintf("%q", s)\<close> is \<open>strconv.Quote\<close> of the standard library. The renderers take it
  as the parameter \<open>q\<close>. \<open>Quote_ascii\<close> is what it computes on printable ASCII text: the
  text between double quotes, with a backslash before every double quote and backslash.
\<close>

fun escape_ascii :: "string \<Rightarrow> string" where
  "escape_ascii [] = []"
| "escape_ascii (c # cs) =
     (if c = CHR 0x22 \<or> c = CHR 0x5C then CHR 0x5C # c # escape_ascii cs
      else c # escape_ascii cs)"

definition Quote_ascii :: "string \<Rightarrow> string" where
  "Quote_ascii s = dq @ escape_ascii s @ dq"

text \<open>\<open>strings.Join\<close>.\<close>

fun Join :: "string list \<Rightarrow> string \<Rightarrow> string" where
  "Join [] sep = []"
| "Join [x] sep = x"
| "Join (x # y # ys) sep = x @ sep @ Join (y # ys) sep"

definition formatSubjectList :: "(string \<Rightarrow> string) \<Rightarrow> string list \<Rightarrow> string" where
  "formatSubjectList q subjects =
     (case subjects of
        [s] \<Rightarrow> q s
      | _ \<Rightarrow> ''['' @ Join (map q subjects) '', '' @ '']'')"

text \<open>
  The body of the loop of \<open>RenderTokenAuthConf\<close> between the opening and the closing brace
  of one user: the user line, the token or password line, the permissions block.
\<close>

definition renderPermissions :: "(string \<Rightarrow> string) \<Rightarrow> Permissions \<Rightarrow> string" where
  "renderPermissions q p =
     ''      permissions: {'' @ nl @
     (if length (PublishAllow p) > 0 \<or> length (PublishDeny p) > 0 then
        ''        publish: {'' @ nl @
        (if length (PublishAllow p) > 0
         then ''          allow: '' @ formatSubjectList q (PublishAllow p) @ nl else []) @
        (if length (PublishDeny p) > 0
         then ''          deny: '' @ formatSubjectList q (PublishDeny p) @ nl else []) @
        ''        }'' @ nl
      else []) @
     (if length (SubscribeAllow p) > 0 \<or> length (SubscribeDeny p) > 0 then
        ''        subscribe: {'' @ nl @
        (if length (SubscribeAllow p) > 0
         then ''          allow: '' @ formatSubjectList q (SubscribeAllow p) @ nl else []) @
        (if length (SubscribeDeny p) > 0
         then ''          deny: '' @ formatSubjectList q (SubscribeDeny p) @ nl else []) @
        ''        }'' @ nl
      else []) @
     ''      }'' @ nl"

definition renderUserFields :: "(string \<Rightarrow> string) \<Rightarrow> TokenUser \<Rightarrow> string" where
  "renderUserFields q user =
     (if Username user \<noteq> [] then ''      user: '' @ q (Username user) @ nl else []) @
     (if Token user \<noteq> [] then ''      token: '' @ q (Token user) @ nl
      else if Password user \<noteq> [] then ''      password: '' @ q (Password user) @ nl
      else []) @
     (case Permissions user of
        None \<Rightarrow> []
      | Some p \<Rightarrow> renderPermissions q p)"

text \<open>
  The loop \<open>for i, user := range users\<close>: \<open>n\<close> is \<open>len(users)\<close> of the whole list and
  \<open>i\<close> the index of the head of the remaining list.
\<close>

fun renderUsersLoop :: "(string \<Rightarrow> string) \<Rightarrow> int \<Rightarrow> int \<Rightarrow> TokenUser list \<Rightarrow> string" where
  "renderUsersLoop q n i [] = []"
| "renderUsersLoop q n i (user # rest) =
     ''    {'' @ nl @ renderUserFields q user @
     ''    }'' @ (if i < n - 1 then '','' else []) @ nl @
     renderUsersLoop q n (i + 1) rest"

definition RenderTokenAuthConf :: "(string \<Rightarrow> string) \<Rightarrow> TokenUser list \<Rightarrow> string" where
  "RenderTokenAuthConf q users =
     (if length users = 0 then []
      else ''authorization {'' @ nl @ ''  users = ['' @ nl @
           renderUsersLoop q (int (length users)) 0 users @
           ''  ]'' @ nl @ ''}'' @ nl)"




text \<open>
  What one pass of either loop appends for the element at index \<open>i\<close> of \<open>n\<close>: the entry,
  a comma unless it is the last, a newline.
\<close>

definition userBlock :: "(string \<Rightarrow> string) \<Rightarrow> nat \<Rightarrow> nat \<times> TokenUser \<Rightarrow> string" where
  "userBlock q n iu =
     ''    {'' @ nl @ renderUserFields q (snd iu) @
     ''    }'' @ (if Suc (fst iu) < n then '','' else []) @ nl"


section \<open>The cluster: the Kubernetes client, randomness and the clock\<close>

text \<open>
  Objects are addressed by namespace and name. A Secret is stored as its \<open>Data\<close> map; a
  ConfigMap as its \<open>Data\<close> map. A nil Go map and an empty one are both the empty map; a
  lookup of a missing key yields the zero value (\<open>at\<close>).
\<close>

type_synonym objkey = "string \<times> string"

datatype kind = KSecret | KConfigMap | KNatsAccount | KNatsAuthConfig

datatype verb = Create | Update

definition at :: "(string \<rightharpoonup> bytes) \<Rightarrow> string \<Rightarrow> bytes" where
  "at m k = (case m k of None \<Rightarrow> [] | Some v \<Rightarrow> v)"

text \<open>
  \<open>corev1.Secret\<close> as the client hands it over: \<open>Data\<close> and the write-only \<open>StringData\<close>,
  which the API server merges into \<open>Data\<close> on every write and never returns.
\<close>

record Secret =
  sec_Data :: "string \<rightharpoonup> bytes"
  sec_StringData :: "string \<rightharpoonup> string"

text \<open>A reading of the clock: \<open>time.Now()\<close> with its \<open>Unix()\<close> and its RFC 3339 text.\<close>

record Time =
  Unix :: int64
  RFC3339 :: string

text \<open>
  The state every call works on. \<open>read_fault\<close> and \<open>write_fault\<close> are the client errors
  other than not-found and already-exists (the API server is unreachable, the write
  conflicts); \<open>scheme_fault\<close> is the error of \<open>controllerutil.SetControllerReference\<close>,
  if it has one; \<open>writes\<close> records every successful Create and Update, oldest first;
  \<open>entropy\<close> holds what \<open>crypto/rand\<close> delivers to the successive reads.
\<close>

record world =
  secrets :: "objkey \<rightharpoonup> (string \<rightharpoonup> bytes)"
  configmaps :: "objkey \<rightharpoonup> (string \<rightharpoonup> string)"
  natsaccounts :: "NatsAccount list"
  authconfigs :: "objkey \<rightharpoonup> NatsAuthConfig"
  read_fault :: "kind \<Rightarrow> objkey \<Rightarrow> error option"
  write_fault :: "kind \<Rightarrow> objkey \<Rightarrow> error option"
  scheme_fault :: "error option"
  writes :: "(verb \<times> kind \<times> objkey) list"
  entropy :: "bytes list"
  clock :: Time

definition rand_Read :: "world \<Rightarrow> nat \<Rightarrow> (error + bytes) \<times> world" where
  "rand_Read w n =
     (case entropy w of
        [] \<Rightarrow> (Inl (Failure ''crypto/rand: read failed''), w)
      | b # bs \<Rightarrow> (Inr (take n b), w\<lparr>entropy := bs\<rparr>))"

text \<open>
  \<open>controllerutil.SetControllerReference(owner, object, scheme)\<close>: the owner reference it
  puts on the object is not modelled, its error is.
\<close>

definition SetControllerReference :: "world \<Rightarrow> error option" where
  "SetControllerReference w = scheme_fault w"

definition merged :: "Secret \<Rightarrow> (string \<rightharpoonup> bytes)" where
  "merged s = sec_Data s ++ sec_StringData s"

definition Get_Secret :: "world \<Rightarrow> objkey \<Rightarrow> error + Secret" where
  "Get_Secret w key =
     (case read_fault w KSecret key of
        Some e \<Rightarrow> Inl e
      | None \<Rightarrow>
          (case secrets w key of
             None \<Rightarrow> Inl NotFound
           | Some d \<Rightarrow> Inr \<lparr>sec_Data = d, sec_StringData = Map.empty\<rparr>))"

definition Create_Secret :: "world \<Rightarrow> objkey \<Rightarrow> Secret \<Rightarrow> error option \<times> world" where
  "Create_Secret w key s =
     (case write_fault w KSecret key of
        Some e \<Rightarrow> (Some e, w)
      | None \<Rightarrow>
          (case secrets w key of
             Some d \<Rightarrow> (Some AlreadyExists, w)
           | None \<Rightarrow>
               (None, w\<lparr>secrets := (secrets w)(key \<mapsto> merged s),
                         writes := writes w @ [(Create, KSecret, key)]\<rparr>)))"

definition Update_Secret :: "world \<Rightarrow> objkey \<Rightarrow> Secret \<Rightarrow> error option \<times> world" where
  "Update_Secret w key s =
     (case write_fault w KSecret key of
        Some e \<Rightarrow> (Some e, w)
      | None \<Rightarrow>
          (case secrets w key of
             None \<Rightarrow> (Some NotFound, w)
           | Some d \<Rightarrow>
               (None, w\<lparr>secrets := (secrets w)(key \<mapsto> merged s),
                         writes := writes w @ [(Update, KSecret, key)]\<rparr>)))"

definition Get_ConfigMap :: "world \<Rightarrow> objkey \<Rightarrow> error + (string \<rightharpoonup> string)" where
  "Get_ConfigMap w key =
     (case read_fault w KConfigMap key of
        Some e \<Rightarrow> Inl e
      | None \<Rightarrow> (case configmaps w key of None \<Rightarrow> Inl NotFound | Some d \<Rightarrow> Inr d))"

definition Create_ConfigMap ::
  "world \<Rightarrow> objkey \<Rightarrow> (string \<rightharpoonup> string) \<Rightarrow> error option \<times> world" where
  "Create_ConfigMap w key d =
     (case write_fault w KConfigMap key of
        Some e \<Rightarrow> (Some e, w)
      | None \<Rightarrow>
          (case configmaps w key of
             Some d0 \<Rightarrow> (Some AlreadyExists, w)
           | None \<Rightarrow>
               (None, w\<lparr>configmaps := (configmaps w)(key \<mapsto> d),
                         writes := writes w @ [(Create, KConfigMap, key)]\<rparr>)))"

definition Update_ConfigMap ::
  "world \<Rightarrow> objkey \<Rightarrow> (string \<rightharpoonup> string) \<Rightarrow> error option \<times> world" where
  "Update_ConfigMap w key d =
     (case write_fault w KConfigMap key of
        Some e \<Rightarrow> (Some e, w)
      | None \<Rightarrow>
          (case configmaps w key of
             None \<Rightarrow> (Some NotFound, w)
           | Some d0 \<Rightarrow>
               (None, w\<lparr>configmaps := (configmaps w)(key \<mapsto> d),
                         writes := writes w @ [(Update, KConfigMap, key)]\<rparr>)))"

definition Get_NatsAccount :: "world \<Rightarrow> objkey \<Rightarrow> error + NatsAccount" where
  "Get_NatsAccount w key =
     (case read_fault w KNatsAccount key of
        Some e \<Rightarrow> Inl e
      | None \<Rightarrow>
          (case find (\<lambda>a. (acct_Namespace a, acct_Name a) = key) (natsaccounts w) of
             None \<Rightarrow> Inl NotFound
           | Some a \<Rightarrow> Inr a))"

text \<open>\<open>r.List(ctx, accountList, client.InNamespace(ns))\<close>.\<close>

definition List_NatsAccounts :: "world \<Rightarrow> string \<Rightarrow> error + NatsAccount list" where
  "List_NatsAccounts w ns =
     (case read_fault w KNatsAccount (ns, []) of
        Some e \<Rightarrow> Inl e
      | None \<Rightarrow> Inr (filter (\<lambda>a. acct_Namespace a = ns) (natsaccounts w)))"

definition Update_NatsAuthConfig :: "world \<Rightarrow> NatsAuthConfig \<Rightarrow> error option \<times> world" where
  "Update_NatsAuthConfig w c =
     (let key = (cfg_Namespace c, cfg_Name c) in
      case write_fault w KNatsAuthConfig key of
        Some e \<Rightarrow> (Some e, w)
      | None \<Rightarrow>
          (case authconfigs w key of
             None \<Rightarrow> (Some NotFound, w)
           | Some c0 \<Rightarrow>
               (None, w\<lparr>authconfigs := (authconfigs w)(key \<mapsto> c),
                         writes := writes w @ [(Update, KNatsAuthConfig, key)]\<rparr>)))"

section \<open>internal/resolver/writer.go\<close>

definition writeToConfigMap ::
  "world \<Rightarrow> string \<Rightarrow> string \<Rightarrow> string \<Rightarrow> string \<Rightarrow> error option \<times> world" where
  "writeToConfigMap w namespace name key content =
     (case Get_ConfigMap w (namespace, name) of
        Inl err \<Rightarrow>
          (if err = NotFound then
             (case Create_ConfigMap w (namespace, name) [key \<mapsto> content] of
                (Some e, w') \<Rightarrow> (Some (Wrap ''failed to create ConfigMap'' e), w')
              | (None, w') \<Rightarrow> (None, w'))
           else (Some (Wrap ''failed to get ConfigMap'' err), w))
      | Inr cm \<Rightarrow>
          (case Update_ConfigMap w (namespace, name) (cm(key \<mapsto> content)) of
             (Some e, w') \<Rightarrow> (Some (Wrap ''failed to update ConfigMap'' e), w')
           | (None, w') \<Rightarrow> (None, w')))"

definition writeToSecret ::
  "world \<Rightarrow> string \<Rightarrow> string \<Rightarrow> string \<Rightarrow> string \<Rightarrow> error option \<times> world" where
  "writeToSecret w namespace name key content =
     (case Get_Secret w (namespace, name) of
        Inl err \<Rightarrow>
          (if err = NotFound then
             (case Create_Secret w (namespace, name)
                     \<lparr>sec_Data = Map.empty, sec_StringData = [key \<mapsto> content]\<rparr> of
                (Some e, w') \<Rightarrow> (Some (Wrap ''failed to create Secret'' e), w')
              | (None, w') \<Rightarrow> (None, w'))
           else (Some (Wrap ''failed to get Secret'' err), w))
      | Inr secret \<Rightarrow>
          (case Update_Secret w (namespace, name)
                  (secret\<lparr>sec_Data := (sec_Data secret)(key \<mapsto> content)\<rparr>) of
             (Some e, w') \<Rightarrow> (Some (Wrap ''failed to update Secret'' e), w')
           | (None, w') \<Rightarrow> (None, w')))"

definition WriteResolverConfig ::
  "world \<Rightarrow> string \<Rightarrow> string \<Rightarrow> string \<Rightarrow> string \<Rightarrow> string \<Rightarrow> error option \<times> world" where
  "WriteResolverConfig w namespace name key configType content =
     (if configType = ''Secret'' then writeToSecret w namespace name key content
      else writeToConfigMap w namespace name key content)"

section \<open>The libraries the code calls\<close>

text \<open>
  The claims documents of \<open>github.com/nats-io/jwt/v2\<close>, with the fields this repository
  reads or writes.
\<close>

record OperatorClaims =
  oc_Subject :: string
  oc_Name :: string
  oc_Issuer :: string
  oc_IssuedAt :: int64

record OperatorLimits =
  ol_Conn :: int64
  ol_Subs :: int64
  ol_Payload :: int64
  ol_Data :: int64
  ol_Exports :: int64
  ol_Imports :: int64
  ol_WildcardExports :: bool
  ol_MemoryStorage :: int64
  ol_DiskStorage :: int64
  ol_Streams :: int64
  ol_Consumer :: int64
  ol_MaxAckPending :: int64
  ol_MemoryMaxStreamBytes :: int64
  ol_DiskMaxStreamBytes :: int64
  ol_MaxBytesRequired :: bool

record AccountClaims =
  ac_Subject :: string
  ac_Name :: string
  ac_Description :: string
  ac_Issuer :: string
  ac_IssuedAt :: int64
  ac_Limits :: OperatorLimits

record UserClaims =
  uc_Subject :: string
  uc_Name :: string
  uc_Issuer :: string
  uc_IssuedAt :: int64
  uc_PubAllow :: "string list"
  uc_PubDeny :: "string list"
  uc_SubAllow :: "string list"
  uc_SubDeny :: "string list"

text \<open>
  The functions of \<open>nkeys\<close>, \<open>jwt\<close> and \<open>encoding/base64\<close> that the code calls are
  parameters of the model, collected in one record. \<open>'kp\<close> is \<open>nkeys.KeyPair\<close>. The three
  \<open>Create\<close> functions draw their seed from \<open>crypto/rand\<close>; they are given the bytes drawn.
  \<open>StringList_Add l p\<close> is \<open>l.Add(p...)\<close>.
\<close>

record 'kp libs =
  FromSeed :: "bytes \<Rightarrow> error + 'kp"
  CreateOperator :: "bytes \<Rightarrow> error + 'kp"
  CreateAccount :: "bytes \<Rightarrow> error + 'kp"
  CreateUser :: "bytes \<Rightarrow> error + 'kp"
  PublicKey :: "'kp \<Rightarrow> error + string"
  Seed :: "'kp \<Rightarrow> error + bytes"
  NewOperatorClaims :: "string \<Rightarrow> OperatorClaims"
  NewAccountClaims :: "string \<Rightarrow> AccountClaims"
  NewUserClaims :: "string \<Rightarrow> UserClaims"
  StringList_Add :: "string list \<Rightarrow> string list \<Rightarrow> string list"
  EncodeOperator :: "OperatorClaims \<Rightarrow> 'kp \<Rightarrow> error + string"
  EncodeAccount :: "AccountClaims \<Rightarrow> 'kp \<Rightarrow> error + string"
  EncodeUser :: "UserClaims \<Rightarrow> 'kp \<Rightarrow> error + string"
  EncodeToString :: "bytes \<Rightarrow> string"

text \<open>A \<open>Create\<close> function of \<open>nkeys\<close> run on the cluster's randomness (32 bytes of seed).\<close>

definition nkeys_Create ::
  "(bytes \<Rightarrow> error + 'kp) \<Rightarrow> world \<Rightarrow> (error + 'kp) \<times> world" where
  "nkeys_Create create w =
     (case rand_Read w 32 of
        (Inl e, w') \<Rightarrow> (Inl e, w')
      | (Inr b, w') \<Rightarrow> (create b, w'))"

section \<open>internal/token/generator.go\<close>

definition GenerateToken :: "'kp libs \<Rightarrow> world \<Rightarrow> int \<Rightarrow> (error + string) \<times> world" where
  "GenerateToken lib w length0 =
     (let length1 = (if length0 \<le> 0 then 32 else length0) in
      case rand_Read w (nat length1) of
        (Inl err, w') \<Rightarrow> (Inl (Wrap ''failed to generate random token'' err), w')
      | (Inr b, w') \<Rightarrow> (Inr (EncodeToString lib b), w'))"

definition GeneratePassword :: "'kp libs \<Rightarrow> world \<Rightarrow> (error + string) \<times> world" where
  "GeneratePassword lib w = GenerateToken lib w 24"

text \<open>\<open>token[:12]\<close> panics when the token has fewer than 12 bytes.\<close>

definition GenerateUsername :: "'kp libs \<Rightarrow> world \<Rightarrow> string \<Rightarrow> (error + string) \<times> world" where
  "GenerateUsername lib w prefix0 =
     (case GenerateToken lib w 8 of
        (Inl err, w') \<Rightarrow> (Inl err, w')
      | (Inr token, w') \<Rightarrow>
          (let prefix1 = (if prefix0 = [] then ''user'' else prefix0) in
           if length token < 12 then (Inl (Failure ''panic: slice bounds out of range''), w')
           else (Inr (prefix1 @ ''-'' @ take 12 token), w')))"

section \<open>internal/jwt: operator, account and user managers\<close>

record 'kp OperatorManager =
  operatorKP :: 'kp
  operatorJWT :: string

record 'kp AccountManager =
  accountKP :: 'kp

record 'kp UserManager =
  userKP :: 'kp

definition NewAccountManager ::
  "'kp libs \<Rightarrow> world \<Rightarrow> bytes \<Rightarrow> (error + 'kp AccountManager) \<times> world" where
  "NewAccountManager lib w seed =
     (if length seed > 0 then
        (case FromSeed lib seed of
           Inl err \<Rightarrow> (Inl (Wrap ''failed to create keypair from seed'' err), w)
         | Inr kp \<Rightarrow> (Inr \<lparr>accountKP = kp\<rparr>, w))
      else
        (case nkeys_Create (CreateAccount lib) w of
           (Inl err, w') \<Rightarrow> (Inl (Wrap ''failed to create account keypair'' err), w')
         | (Inr kp, w') \<Rightarrow> (Inr \<lparr>accountKP = kp\<rparr>, w')))"

definition NewUserManager ::
  "'kp libs \<Rightarrow> world \<Rightarrow> bytes \<Rightarrow> (error + 'kp UserManager) \<times> world" where
  "NewUserManager lib w seed =
     (if length seed > 0 then
        (case FromSeed lib seed of
           Inl err \<Rightarrow> (Inl (Wrap ''failed to create keypair from seed'' err), w)
         | Inr kp \<Rightarrow> (Inr \<lparr>userKP = kp\<rparr>, w))
      else
        (case nkeys_Create (CreateUser lib) w of
           (Inl err, w') \<Rightarrow> (Inl (Wrap ''failed to create user keypair'' err), w')
         | (Inr kp, w') \<Rightarrow> (Inr \<lparr>userKP = kp\<rparr>, w')))"

text \<open>The second half of \<open>NewOperatorManager\<close>: the self-signed operator token.\<close>

definition signOperator ::
  "'kp libs \<Rightarrow> world \<Rightarrow> 'kp \<Rightarrow> string \<Rightarrow> error + 'kp OperatorManager" where
  "signOperator lib w kp operatorName =
     (case PublicKey lib kp of
        Inl err \<Rightarrow> Inl (Wrap ''failed to get public key'' err)
      | Inr pubKey \<Rightarrow>
          (let claims = (NewOperatorClaims lib pubKey)
                          \<lparr>oc_Name := operatorName, oc_Issuer := pubKey,
                           oc_IssuedAt := Unix (clock w)\<rparr> in
           case EncodeOperator lib claims kp of
             Inl err \<Rightarrow> Inl (Wrap ''failed to encode operator JWT'' err)
           | Inr jwt \<Rightarrow> Inr \<lparr>operatorKP = kp, operatorJWT = jwt\<rparr>))"

definition NewOperatorManager ::
  "'kp libs \<Rightarrow> world \<Rightarrow> bytes \<Rightarrow> string \<Rightarrow> (error + 'kp OperatorManager) \<times> world" where
  "NewOperatorManager lib w seed operatorName =
     (if length seed > 0 then
        (case FromSeed lib seed of
           Inl err \<Rightarrow> (Inl (Wrap ''failed to create keypair from seed'' err), w)
         | Inr kp \<Rightarrow> (signOperator lib w kp operatorName, w))
      else
        (case nkeys_Create (CreateOperator lib) w of
           (Inl err, w') \<Rightarrow> (Inl (Wrap ''failed to create operator keypair'' err), w')
         | (Inr kp, w') \<Rightarrow> (signOperator lib w' kp operatorName, w')))"

definition CreateAccountClaims ::
  "'kp libs \<Rightarrow> world \<Rightarrow> 'kp AccountManager \<Rightarrow> string \<Rightarrow> string \<Rightarrow> AccountLimits option
     \<Rightarrow> error + AccountClaims" where
  "CreateAccountClaims lib w am name description limits =
     (case PublicKey lib (accountKP am) of
        Inl err \<Rightarrow> Inl (Wrap ''failed to get public key'' err)
      | Inr pubKey \<Rightarrow>
          (let claims = (NewAccountClaims lib pubKey)
                          \<lparr>ac_Name := name, ac_Description := description,
                           ac_IssuedAt := Unix (clock w)\<rparr> in
           case limits of
             None \<Rightarrow> Inr claims
           | Some l \<Rightarrow>
               (let lim1 = (ac_Limits claims)
                             \<lparr>ol_Conn := Conn l, ol_Subs := Subs l, ol_Payload := Payload l,
                              ol_Data := Data l, ol_Exports := Exports l,
                              ol_Imports := Imports l,
                              ol_WildcardExports := WildcardExports l\<rparr>;
                    lim2 = (case JetStream l of
                              None \<Rightarrow> lim1
                            | Some js \<Rightarrow>
                                lim1\<lparr>ol_MemoryStorage := MemoryStorage js,
                                     ol_DiskStorage := DiskStorage js,
                                     ol_Streams := Streams js,
                                     ol_Consumer := Consumer js,
                                     ol_MaxAckPending := MaxAckPending js,
                                     ol_MemoryMaxStreamBytes := MemoryMaxStreamBytes js,
                                     ol_DiskMaxStreamBytes := DiskMaxStreamBytes js,
                                     ol_MaxBytesRequired := MaxBytesRequired js\<rparr>)
                in Inr (claims\<lparr>ac_Limits := lim2\<rparr>))))"

definition CreateUserClaims ::
  "'kp libs \<Rightarrow> world \<Rightarrow> 'kp UserManager \<Rightarrow> string \<Rightarrow> Permissions option
     \<Rightarrow> error + UserClaims" where
  "CreateUserClaims lib w um name permissions =
     (case PublicKey lib (userKP um) of
        Inl err \<Rightarrow> Inl (Wrap ''failed to get public key'' err)
      | Inr pubKey \<Rightarrow>
          (let claims = (NewUserClaims lib pubKey)
                          \<lparr>uc_Name := name, uc_IssuedAt := Unix (clock w)\<rparr> in
           case permissions of
             None \<Rightarrow> Inr claims
           | Some p \<Rightarrow>
               (let c1 = (if length (PublishAllow p) > 0
                          then claims\<lparr>uc_PubAllow :=
                                 StringList_Add lib (uc_PubAllow claims) (PublishAllow p)\<rparr>
                          else claims);
                    c2 = (if length (PublishDeny p) > 0
                          then c1\<lparr>uc_PubDeny :=
                                 StringList_Add lib (uc_PubDeny c1) (PublishDeny p)\<rparr>
                          else c1);
                    c3 = (if length (SubscribeAllow p) > 0
                          then c2\<lparr>uc_SubAllow :=
                                 StringList_Add lib (uc_SubAllow c2) (SubscribeAllow p)\<rparr>
                          else c2);
                    c4 = (if length (SubscribeDeny p) > 0
                          then c3\<lparr>uc_SubDeny :=
                                 StringList_Add lib (uc_SubDeny c3) (SubscribeDeny p)\<rparr>
                          else c3)
                in Inr c4)))"

definition SignUserJWT :: "'kp libs \<Rightarrow> 'kp AccountManager \<Rightarrow> UserClaims \<Rightarrow> error + string" where
  "SignUserJWT lib am userClaims =
     (case PublicKey lib (accountKP am) of
        Inl err \<Rightarrow> Inl (Wrap ''failed to get account public key'' err)
      | Inr pubKey \<Rightarrow>
          (case EncodeUser lib (userClaims\<lparr>uc_Issuer := pubKey\<rparr>) (accountKP am) of
             Inl err \<Rightarrow> Inl (Wrap ''failed to encode user JWT'' err)
           | Inr token \<Rightarrow> Inr token))"

definition SignAccountJWT ::
  "'kp libs \<Rightarrow> 'kp OperatorManager \<Rightarrow> AccountClaims \<Rightarrow> error + string" where
  "SignAccountJWT lib om accountClaims =
     (case PublicKey lib (operatorKP om) of
        Inl err \<Rightarrow> Inl (Wrap ''failed to get operator public key'' err)
      | Inr pubKey \<Rightarrow>
          (case EncodeAccount lib (accountClaims\<lparr>ac_Issuer := pubKey\<rparr>) (operatorKP om) of
             Inl err \<Rightarrow> Inl (Wrap ''failed to encode account JWT'' err)
           | Inr token \<Rightarrow> Inr token))"

definition GenerateCredsFile :: "string \<Rightarrow> bytes \<Rightarrow> string" where
  "GenerateCredsFile userJWT userSeed =
     ''-----BEGIN NATS USER JWT-----'' @ nl @
     userJWT @ nl @
     ''------END NATS USER JWT------'' @ nl @
     nl @
     ''************************* IMPORTANT *************************'' @ nl @
     ''NKEY Seed printed below can be used to sign and prove identity.'' @ nl @
     ''NKEYs are sensitive and should be treated as secrets.'' @ nl @
     nl @
     ''-----BEGIN USER NKEY SEED-----'' @ nl @
     userSeed @ nl @
     ''------END USER NKEY SEED------'' @ nl @
     nl @
     ''*************************************************************'' @ nl"

definition OperatorManager_GetPublicKey :: "'kp libs \<Rightarrow> 'kp OperatorManager \<Rightarrow> error + string" where
  "OperatorManager_GetPublicKey lib om = PublicKey lib (operatorKP om)"

definition AccountManager_GetPublicKey :: "'kp libs \<Rightarrow> 'kp AccountManager \<Rightarrow> error + string" where
  "AccountManager_GetPublicKey lib am = PublicKey lib (accountKP am)"

definition UserManager_GetPublicKey :: "'kp libs \<Rightarrow> 'kp UserManager \<Rightarrow> error + string" where
  "UserManager_GetPublicKey lib um = PublicKey lib (userKP um)"

section \<open>internal/controller: the account reconciler\<close>

text \<open>
  The reconcile functions return the error (if any), the entity with the status the call
  left in memory (which \<open>Reconcile\<close> then persists), and the cluster.
\<close>

definition getOrCreateAccountSeed ::
  "'kp libs \<Rightarrow> world \<Rightarrow> NatsAccount \<Rightarrow> (error + bytes) \<times> world" where
  "getOrCreateAccountSeed lib w account =
     (case as_ExistingSeedSecret (acct_Spec account) of
        Some ref \<Rightarrow>
          (case Get_Secret w (sr_Namespace ref, sr_Name ref) of
             Inl err \<Rightarrow> (Inl (Wrap ''failed to get account seed secret'' err), w)
           | Inr secret \<Rightarrow>
               (case sec_Data secret ''account.seed'' of
                  None \<Rightarrow> (Inl (Failure ''account seed not found in secret''), w)
                | Some seed \<Rightarrow> (Inr seed, w)))
      | None \<Rightarrow>
          (case NewAccountManager lib w [] of
             (Inl err, w') \<Rightarrow> (Inl err, w')
           | (Inr accountMgr, w') \<Rightarrow>
               (case Seed lib (accountKP accountMgr) of
                  Inl err \<Rightarrow> (Inl err, w')
                | Inr seed \<Rightarrow> (Inr seed, w'))))"

text \<open>\<open>authConfig.Spec.JWT\<close> is a pointer that is dereferenced unchecked.\<close>

definition getOperatorSeed :: "world \<Rightarrow> NatsAuthConfig \<Rightarrow> error + bytes" where
  "getOperatorSeed w authConfig =
     (case cs_JWT (cfg_Spec authConfig) of
        None \<Rightarrow> Inl (Failure ''panic: nil pointer dereference'')
      | Some jwt \<Rightarrow>
          (let (secretName, secretNamespace, seedKey) =
                 (case OperatorSeedSecret jwt of
                    Some ref \<Rightarrow>
                      (oss_Name ref, oss_Namespace ref,
                       if oss_Key ref = [] then ''operator.seed'' else oss_Key ref)
                  | None \<Rightarrow>
                      (cfg_Name authConfig @ ''-operator-seed'', cfg_Namespace authConfig,
                       ''operator.seed''))
           in case Get_Secret w (secretNamespace, secretName) of
                Inl err \<Rightarrow> Inl (Wrap ''failed to get operator seed secret'' err)
              | Inr secret \<Rightarrow>
                  (case sec_Data secret seedKey of
                     None \<Rightarrow> Inl (Failure ''operator seed key not found in secret'')
                   | Some seed \<Rightarrow> Inr seed)))"

definition triggerAuthConfigReconcile ::
  "world \<Rightarrow> NatsAuthConfig \<Rightarrow> error option \<times> world" where
  "triggerAuthConfigReconcile w authConfig =
     (let authConfig' = authConfig
            \<lparr>cfg_Annotations := (cfg_Annotations authConfig)
               (''nats.jradikk/last-account-update'' \<mapsto> RFC3339 (clock w))\<rparr> in
      case Update_NatsAuthConfig w authConfig' of
        (Some err, w') \<Rightarrow> (Some (Wrap ''failed to trigger auth config reconciliation'' err), w')
      | (None, w') \<Rightarrow> (None, w'))"

text \<open>
  Lines 158 to 169 of \<open>reconcileAccount\<close>: the existing secret makes the call return at
  once when the status has an account id, the secret has a token and a seed, and the
  seed's public key is the status's account id.
\<close>

definition accountUpToDate :: "'kp libs \<Rightarrow> NatsAccount \<Rightarrow> Secret \<Rightarrow> bool" where
  "accountUpToDate lib account existingSecret =
     (if ast_AccountID (acct_Status account) \<noteq> []
         \<and> length (at (sec_Data existingSecret) ''account.jwt'') > 0
         \<and> length (at (sec_Data existingSecret) ''account.seed'') > 0
      then
        (case FromSeed lib (at (sec_Data existingSecret) ''account.seed'') of
           Inl err \<Rightarrow> False
         | Inr kp \<Rightarrow>
             (case PublicKey lib kp of
                Inl err \<Rightarrow> False
              | Inr pubKey \<Rightarrow> pubKey = ast_AccountID (acct_Status account)))
      else False)"

text \<open>
  Lines 177 to 266: seed, claims, signature, the secret, the status, the trigger.
  \<open>existing\<close> is the secret read at the start, if there was one.
\<close>

definition issueAccount ::
  "'kp libs \<Rightarrow> world \<Rightarrow> NatsAccount \<Rightarrow> NatsAuthConfig \<Rightarrow> Secret option
     \<Rightarrow> error option \<times> NatsAccount \<times> world" where
  "issueAccount lib w account authConfig existing =
     (let jwtSecretName = acct_Name account @ ''-account-jwt'' in
      case getOrCreateAccountSeed lib w account of
        (Inl err, w1) \<Rightarrow> (Some (Wrap ''failed to get account seed'' err), account, w1)
      | (Inr accountSeed, w1) \<Rightarrow>
     (case NewAccountManager lib w1 accountSeed of
        (Inl err, w2) \<Rightarrow> (Some (Wrap ''failed to create account manager'' err), account, w2)
      | (Inr accountMgr, w2) \<Rightarrow>
     (case PublicKey lib (accountKP accountMgr) of
        Inl err \<Rightarrow> (Some (Wrap ''failed to get account public key'' err), account, w2)
      | Inr accountPubKey \<Rightarrow>
     (case CreateAccountClaims lib w2 accountMgr (acct_Name account)
             (as_Description (acct_Spec account)) (as_Limits (acct_Spec account)) of
        Inl err \<Rightarrow> (Some (Wrap ''failed to create account claims'' err), account, w2)
      | Inr accountClaims \<Rightarrow>
     (case getOperatorSeed w2 authConfig of
        Inl err \<Rightarrow> (Some (Wrap ''failed to get operator seed'' err), account, w2)
      | Inr operatorSeed \<Rightarrow>
     (case NewOperatorManager lib w2 operatorSeed [] of
        (Inl err, w3) \<Rightarrow> (Some (Wrap ''failed to create operator manager'' err), account, w3)
      | (Inr operatorMgr, w3) \<Rightarrow>
     (case SignAccountJWT lib operatorMgr accountClaims of
        Inl err \<Rightarrow> (Some (Wrap ''failed to sign account JWT'' err), account, w3)
      | Inr accountJWT \<Rightarrow>
     (case SetControllerReference w3 of
        Some err \<Rightarrow> (Some err, account, w3)
      | None \<Rightarrow>
     (let jwtData = [''account.jwt'' \<mapsto> accountJWT, ''account.seed'' \<mapsto> accountSeed];
          key = (acct_Namespace account, jwtSecretName);
          stored =
            (case existing of
               None \<Rightarrow>
                 (case Create_Secret w3 key \<lparr>sec_Data = jwtData, sec_StringData = Map.empty\<rparr> of
                    (Some err, w4) \<Rightarrow> (Some (Wrap ''failed to create JWT secret'' err), w4)
                  | (None, w4) \<Rightarrow> (None, w4))
             | Some existingSecret \<Rightarrow>
                 (case Update_Secret w3 key (existingSecret\<lparr>sec_Data := jwtData\<rparr>) of
                    (Some err, w4) \<Rightarrow> (Some (Wrap ''failed to update JWT secret'' err), w4)
                  | (None, w4) \<Rightarrow> (None, w4)))
      in case stored of
           (Some err, w4) \<Rightarrow> (Some err, account, w4)
         | (None, w4) \<Rightarrow>
             (let account' = account\<lparr>acct_Status := (acct_Status account)
                    \<lparr>ast_AccountID := accountPubKey, ast_PublicKey := accountPubKey,
                     ast_JWTSecretRef := \<lparr>sr_Name = jwtSecretName,
                                          sr_Namespace = acct_Namespace account\<rparr>\<rparr>\<rparr> in
              case triggerAuthConfigReconcile w4 authConfig of
                (Some err, w5) \<Rightarrow>
                  (Some (Wrap ''failed to trigger auth config reconciliation'' err), account', w5)
              | (None, w5) \<Rightarrow> (None, account', w5)))))))))))"

definition reconcileAccount ::
  "'kp libs \<Rightarrow> world \<Rightarrow> NatsAccount \<Rightarrow> NatsAuthConfig
     \<Rightarrow> error option \<times> NatsAccount \<times> world" where
  "reconcileAccount lib w account authConfig =
     (case Get_Secret w (acct_Namespace account, acct_Name account @ ''-account-jwt'') of
        Inl err \<Rightarrow>
          (if err = NotFound then issueAccount lib w account authConfig None
           else (Some (Wrap ''failed to check JWT secret'' err), account, w))
      | Inr existingSecret \<Rightarrow>
          (if accountUpToDate lib account existingSecret then (None, account, w)
           else issueAccount lib w account authConfig (Some existingSecret)))"

section \<open>internal/controller: the user reconciler\<close>

definition getOrCreateUserSeed ::
  "'kp libs \<Rightarrow> world \<Rightarrow> NatsUser \<Rightarrow> (error + bytes) \<times> world" where
  "getOrCreateUserSeed lib w user =
     (case us_ExistingSeedSecret (user_Spec user) of
        Some ref \<Rightarrow>
          (case Get_Secret w (sr_Namespace ref, sr_Name ref) of
             Inl err \<Rightarrow> (Inl (Wrap ''failed to get user seed secret'' err), w)
           | Inr secret \<Rightarrow>
               (case sec_Data secret ''user.seed'' of
                  Some seed \<Rightarrow> (Inr seed, w)
                | None \<Rightarrow>
                    (case sec_Data secret ''seed.nk'' of
                       Some seed \<Rightarrow> (Inr seed, w)
                     | None \<Rightarrow> (Inl (Failure ''user seed not found in secret''), w))))
      | None \<Rightarrow>
          (case NewUserManager lib w [] of
             (Inl err, w') \<Rightarrow> (Inl err, w')
           | (Inr userMgr, w') \<Rightarrow>
               (case Seed lib (userKP userMgr) of
                  Inl err \<Rightarrow> (Inl err, w')
                | Inr seed \<Rightarrow> (Inr seed, w'))))"

definition getAccount :: "world \<Rightarrow> NatsUser \<Rightarrow> error + NatsAccount" where
  "getAccount w user =
     (case us_AccountRef (user_Spec user) of
        None \<Rightarrow> Inl (Failure ''accountRef is nil'')
      | Some ref \<Rightarrow>
          (let namespace = (if nar_Namespace ref = [] then user_Namespace user
                            else nar_Namespace ref) in
           Get_NatsAccount w (namespace, nar_Name ref)))"

definition getAccountSeed :: "world \<Rightarrow> NatsAccount \<Rightarrow> error + bytes" where
  "getAccountSeed w account =
     (if sr_Name (ast_JWTSecretRef (acct_Status account)) = [] then
        Inl (Failure ''account JWT secret not ready'')
      else
        (case Get_Secret w (sr_Namespace (ast_JWTSecretRef (acct_Status account)),
                            sr_Name (ast_JWTSecretRef (acct_Status account))) of
           Inl err \<Rightarrow> Inl (Wrap ''failed to get account JWT secret'' err)
         | Inr secret \<Rightarrow>
             (case sec_Data secret ''account.seed'' of
                None \<Rightarrow> Inl (Failure ''account seed not found in secret'')
              | Some seed \<Rightarrow> Inr seed)))"

text \<open>
  Lines 592 to 687 of \<open>reconcileJWTUser\<close>: seed, claims, signature by the account, the
  credentials secret (read again, then created or updated), the status.
\<close>

definition issueUser ::
  "'kp libs \<Rightarrow> world \<Rightarrow> NatsUser \<Rightarrow> NatsAuthConfig \<Rightarrow> NatsAccount
     \<Rightarrow> error option \<times> NatsUser \<times> world" where
  "issueUser lib w user authConfig account =
     (let secretName = user_Name user @ ''-user-creds'' in
      case getOrCreateUserSeed lib w user of
        (Inl err, w1) \<Rightarrow> (Some (Wrap ''failed to get user seed'' err), user, w1)
      | (Inr userSeed, w1) \<Rightarrow>
     (case NewUserManager lib w1 userSeed of
        (Inl err, w2) \<Rightarrow> (Some (Wrap ''failed to create user manager'' err), user, w2)
      | (Inr userMgr, w2) \<Rightarrow>
     (case PublicKey lib (userKP userMgr) of
        Inl err \<Rightarrow> (Some (Wrap ''failed to get user public key'' err), user, w2)
      | Inr userPubKey \<Rightarrow>
     (let userName = (if us_Username (user_Spec user) \<noteq> [] then us_Username (user_Spec user)
                      else user_Name user) in
      case CreateUserClaims lib w2 userMgr userName (us_Permissions (user_Spec user)) of
        Inl err \<Rightarrow> (Some (Wrap ''failed to create user claims'' err), user, w2)
      | Inr userClaims \<Rightarrow>
     (case getAccountSeed w2 account of
        Inl err \<Rightarrow> (Some (Wrap ''failed to get account seed'' err), user, w2)
      | Inr accountSeed \<Rightarrow>
     (case NewAccountManager lib w2 accountSeed of
        (Inl err, w3) \<Rightarrow> (Some (Wrap ''failed to create account manager'' err), user, w3)
      | (Inr accountMgr, w3) \<Rightarrow>
     (case SignUserJWT lib accountMgr userClaims of
        Inl err \<Rightarrow> (Some (Wrap ''failed to sign user JWT'' err), user, w3)
      | Inr userJWT \<Rightarrow>
     (case SetControllerReference w3 of
        Some err \<Rightarrow> (Some err, user, w3)
      | None \<Rightarrow>
     (let credsContent = GenerateCredsFile userJWT userSeed;
          secret = \<lparr>sec_Data = [''seed.nk'' \<mapsto> userSeed],
                    sec_StringData = [''user.creds'' \<mapsto> credsContent,
                                      ''user.jwt'' \<mapsto> userJWT,
                                      ''NATS_URL'' \<mapsto> cs_NatsURL (cfg_Spec authConfig)]\<rparr>;
          key = (user_Namespace user, secretName);
          stored =
            (case Get_Secret w3 key of
               Inl checkErr \<Rightarrow>
                 (if checkErr = NotFound then
                    (case Create_Secret w3 key secret of
                       (Some err, w4) \<Rightarrow>
                         (Some (Wrap ''failed to create credentials secret'' err), w4)
                     | (None, w4) \<Rightarrow> (None, w4))
                  else (Some checkErr, w3))
             | Inr existingSecret \<Rightarrow>
                 (case Update_Secret w3 key
                         (existingSecret\<lparr>sec_StringData := sec_StringData secret,
                                         sec_Data := sec_Data secret\<rparr>) of
                    (Some err, w4) \<Rightarrow>
                      (Some (Wrap ''failed to update credentials secret'' err), w4)
                  | (None, w4) \<Rightarrow> (None, w4)))
      in case stored of
           (Some err, w4) \<Rightarrow> (Some err, user, w4)
         | (None, w4) \<Rightarrow>
             (None,
              user\<lparr>user_Status := (user_Status user)
                     \<lparr>ust_PublicKey := userPubKey,
                      ust_SecretRef := \<lparr>sr_Name = secretName,
                                        sr_Namespace = user_Namespace user\<rparr>\<rparr>\<rparr>,
              w4))))))))))"

definition reconcileJWTUser ::
  "'kp libs \<Rightarrow> world \<Rightarrow> NatsUser \<Rightarrow> NatsAuthConfig \<Rightarrow> error option \<times> NatsUser \<times> world" where
  "reconcileJWTUser lib w user authConfig =
     (case us_AccountRef (user_Spec user) of
        None \<Rightarrow> (Some (Failure ''accountRef is required for JWT mode''), user, w)
      | Some ref \<Rightarrow>
     (case getAccount w user of
        Inl err \<Rightarrow> (Some (Wrap ''failed to get NatsAccount'' err), user, w)
      | Inr account \<Rightarrow>
          (if ast_AccountID (acct_Status account) = [] then
             (Some (Failure ''NatsAccount is not ready yet''), user, w)
           else
             (case Get_Secret w (user_Namespace user, user_Name user @ ''-user-creds'') of
                Inl checkErr \<Rightarrow>
                  (if checkErr = NotFound then issueUser lib w user authConfig account
                   else (Some (Wrap ''failed to check credentials secret'' checkErr), user, w))
              | Inr existingSecret \<Rightarrow>
                  (if ust_PublicKey (user_Status user) \<noteq> []
                      \<and> length (at (sec_Data existingSecret) ''user.creds'') > 0
                   then (None, user, w)
                   else issueUser lib w user authConfig account)))))"

text \<open>
  \<open>reconcileTokenUser\<close>, lines 691 to 731: the username and the password to store.
\<close>

definition tokenUsername :: "'kp libs \<Rightarrow> world \<Rightarrow> NatsUser \<Rightarrow> (error + string) \<times> world" where
  "tokenUsername lib w user =
     (if us_Username (user_Spec user) = [] then
        (case GenerateUsername lib w (user_Name user) of
           (Inl err, w') \<Rightarrow> (Inl (Wrap ''failed to generate username'' err), w')
         | (Inr username, w') \<Rightarrow> (Inr username, w'))
      else (Inr (us_Username (user_Spec user)), w))"

definition tokenPassword :: "'kp libs \<Rightarrow> world \<Rightarrow> NatsUser \<Rightarrow> (error + string) \<times> world" where
  "tokenPassword lib w user =
     (case us_PasswordFrom (user_Spec user) of
        Some passwordFrom \<Rightarrow>
          (if Generate passwordFrom then
             (case GeneratePassword lib w of
                (Inl err, w') \<Rightarrow> (Inl (Wrap ''failed to generate password'' err), w')
              | (Inr password, w') \<Rightarrow> (Inr password, w'))
           else
             (case ps_SecretRef passwordFrom of
                Some ref \<Rightarrow>
                  (case Get_Secret w (sr_Namespace ref, sr_Name ref) of
                     Inl err \<Rightarrow> (Inl (Wrap ''failed to get password secret'' err), w)
                   | Inr secret \<Rightarrow> (Inr (at (sec_Data secret) ''password''), w))
              | None \<Rightarrow> (Inr [], w)))
      | None \<Rightarrow>
          (case GeneratePassword lib w of
             (Inl err, w') \<Rightarrow> (Inl (Wrap ''failed to generate password'' err), w')
           | (Inr password, w') \<Rightarrow> (Inr password, w')))"

definition reconcileTokenUser ::
  "'kp libs \<Rightarrow> world \<Rightarrow> NatsUser \<Rightarrow> NatsAuthConfig \<Rightarrow> error option \<times> NatsUser \<times> world" where
  "reconcileTokenUser lib w user authConfig =
     (case tokenUsername lib w user of
        (Inl err, w1) \<Rightarrow> (Some err, user, w1)
      | (Inr username, w1) \<Rightarrow>
     (case tokenPassword lib w1 user of
        (Inl err, w2) \<Rightarrow> (Some err, user, w2)
      | (Inr password, w2) \<Rightarrow>
     (case SetControllerReference w2 of
        Some err \<Rightarrow> (Some err, user, w2)
      | None \<Rightarrow>
     (let secretName = user_Name user @ ''-user-creds'';
          secret = \<lparr>sec_Data = Map.empty,
                    sec_StringData = [''USERNAME'' \<mapsto> username,
                                      ''PASSWORD'' \<mapsto> password,
                                      ''NATS_URL'' \<mapsto> cs_NatsURL (cfg_Spec authConfig)]\<rparr>;
          key = (user_Namespace user, secretName);
          stored =
            (case Get_Secret w2 key of
               Inl err \<Rightarrow>
                 (if err = NotFound then
                    (case Create_Secret w2 key secret of
                       (Some err', w3) \<Rightarrow>
                         (Some (Wrap ''failed to create credentials secret'' err'), w3)
                     | (None, w3) \<Rightarrow> (None, w3))
                  else (Some err, w2))
             | Inr existingSecret \<Rightarrow>
                 (if sec_Data existingSecret = Map.empty
                     \<or> at (sec_Data existingSecret) ''USERNAME'' \<noteq> username
                     \<or> at (sec_Data existingSecret) ''PASSWORD'' \<noteq> password
                  then
                    (case Update_Secret w2 key
                            (existingSecret\<lparr>sec_StringData := sec_StringData secret\<rparr>) of
                       (Some err, w3) \<Rightarrow>
                         (Some (Wrap ''failed to update credentials secret'' err), w3)
                     | (None, w3) \<Rightarrow> (None, w3))
                  else (None, w2)))
      in case stored of
           (Some err, w3) \<Rightarrow> (Some err, user, w3)
         | (None, w3) \<Rightarrow>
             (None,
              user\<lparr>user_Status := (user_Status user)
                     \<lparr>ust_SecretRef := \<lparr>sr_Name = secretName,
                                        sr_Namespace = user_Namespace user\<rparr>\<rparr>\<rparr>,
              w3)))))"

section \<open>internal/controller: the configuration reconciler\<close>

text \<open>The loop of \<open>collectAccountJWTs\<close> over \<open>accountList.Items\<close>.\<close>

fun collectLoop ::
  "world \<Rightarrow> NatsAuthConfig \<Rightarrow> NatsAccount list \<Rightarrow> AccountJWT list \<Rightarrow> error + AccountJWT list" where
  "collectLoop w authConfig [] accounts = Inr accounts"
| "collectLoop w authConfig (account # items) accounts =
     (if acr_Name (as_AuthConfigRef (acct_Spec account)) \<noteq> cfg_Name authConfig then
        collectLoop w authConfig items accounts
      else
        (case Get_Secret w (acct_Namespace account, acct_Name account @ ''-account-jwt'') of
           Inl err \<Rightarrow>
             (if err = NotFound then collectLoop w authConfig items accounts
              else Inl (Wrap ''failed to get account JWT secret'' err))
         | Inr secret \<Rightarrow>
             (case sec_Data secret ''account.jwt'' of
                None \<Rightarrow> collectLoop w authConfig items accounts
              | Some jwtData \<Rightarrow>
                  (if ast_AccountID (acct_Status account) = [] then
                     collectLoop w authConfig items accounts
                   else
                     collectLoop w authConfig items
                       (accounts @ [\<lparr>AccountName = acct_Name account,
                                     AccountID = ast_AccountID (acct_Status account),
                                     JWT = jwtData\<rparr>])))))"

definition collectAccountJWTs :: "world \<Rightarrow> NatsAuthConfig \<Rightarrow> error + AccountJWT list" where
  "collectAccountJWTs w authConfig =
     (case List_NatsAccounts w (cfg_Namespace authConfig) of
        Inl err \<Rightarrow> Inl (Wrap ''failed to list accounts'' err)
      | Inr items \<Rightarrow> collectLoop w authConfig items [])"

definition getOrCreateOperatorSeed ::
  "'kp libs \<Rightarrow> world \<Rightarrow> NatsAuthConfig \<Rightarrow> (error + bytes) \<times> world" where
  "getOrCreateOperatorSeed lib w authConfig =
     (case cs_JWT (cfg_Spec authConfig) of
        None \<Rightarrow> (Inl (Failure ''panic: nil pointer dereference''), w)
      | Some jwt \<Rightarrow>
     (case OperatorSeedSecret jwt of
        Some ref \<Rightarrow>
          (case Get_Secret w (oss_Namespace ref, oss_Name ref) of
             Inl err \<Rightarrow> (Inl (Wrap ''failed to get operator seed secret'' err), w)
           | Inr secret \<Rightarrow>
               (let seedKey = (if oss_Key ref = [] then ''operator.seed'' else oss_Key ref) in
                case sec_Data secret seedKey of
                  None \<Rightarrow> (Inl (Failure ''operator seed key not found in secret''), w)
                | Some seed \<Rightarrow> (Inr seed, w)))
      | None \<Rightarrow>
          (case NewOperatorManager lib w [] ''NATS Operator'' of
             (Inl err, w1) \<Rightarrow> (Inl err, w1)
           | (Inr operatorMgr, w1) \<Rightarrow>
               (case Seed lib (operatorKP operatorMgr) of
                  Inl err \<Rightarrow> (Inl err, w1)
                | Inr seed \<Rightarrow>
                    (let key = (cfg_Namespace authConfig, cfg_Name authConfig @ ''-operator-seed'') in
                     case SetControllerReference w1 of
                       Some err \<Rightarrow> (Inl err, w1)
                     | None \<Rightarrow>
                     case Create_Secret w1 key
                            \<lparr>sec_Data = [''operator.seed'' \<mapsto> seed],
                             sec_StringData = Map.empty\<rparr> of
                       (Some err, w2) \<Rightarrow>
                         (if err \<noteq> AlreadyExists then (Inl err, w2)
                          else
                            (case Get_Secret w2 key of
                               Inl err' \<Rightarrow> (Inl err', w2)
                             | Inr secret \<Rightarrow> (Inr (at (sec_Data secret) ''operator.seed''), w2)))
                     | (None, w2) \<Rightarrow> (Inr seed, w2))))))"

text \<open>The loop that adds each account token to the secret data under the account's name.\<close>

fun addAccountKeys :: "(string \<rightharpoonup> bytes) \<Rightarrow> AccountJWT list \<Rightarrow> (string \<rightharpoonup> bytes)" where
  "addAccountKeys secretData [] = secretData"
| "addAccountKeys secretData (acc # rest) =
     addAccountKeys (secretData(AccountName acc \<mapsto> JWT acc)) rest"

definition reconcileJWTMode ::
  "'kp libs \<Rightarrow> world \<Rightarrow> NatsAuthConfig \<Rightarrow> error option \<times> NatsAuthConfig \<times> world" where
  "reconcileJWTMode lib w authConfig =
     (case getOrCreateOperatorSeed lib w authConfig of
        (Inl err, w1) \<Rightarrow> (Some (Wrap ''failed to get operator seed'' err), authConfig, w1)
      | (Inr operatorSeed, w1) \<Rightarrow>
     (case cs_JWT (cfg_Spec authConfig) of
        None \<Rightarrow> (Some (Failure ''panic: nil pointer dereference''), authConfig, w1)
      | Some jwt \<Rightarrow>
     (let operatorName = (if OperatorName jwt \<noteq> [] then OperatorName jwt
                          else ''NATS Operator'') in
      case NewOperatorManager lib w1 operatorSeed operatorName of
        (Inl err, w2) \<Rightarrow>
          (Some (Wrap ''failed to create operator manager'' err), authConfig, w2)
      | (Inr operatorMgr, w2) \<Rightarrow>
     (case PublicKey lib (operatorKP operatorMgr) of
        Inl err \<Rightarrow> (Some (Wrap ''failed to get operator public key'' err), authConfig, w2)
      | Inr operatorPubKey \<Rightarrow>
     (case collectAccountJWTs w2 authConfig of
        Inl err \<Rightarrow> (Some (Wrap ''failed to collect account JWTs'' err), authConfig, w2)
      | Inr accounts \<Rightarrow>
     (let secretData = addAccountKeys [''operator'' \<mapsto> operatorJWT operatorMgr] accounts;
          key = (sac_Namespace (cs_ServerAuthConfig (cfg_Spec authConfig)),
                 sac_Name (cs_ServerAuthConfig (cfg_Spec authConfig)));
          stored =
            (case Get_Secret w2 key of
               Inl err \<Rightarrow>
                 (if err = NotFound then
                    (case Create_Secret w2 key
                            \<lparr>sec_Data = secretData, sec_StringData = Map.empty\<rparr> of
                       (Some err', w3) \<Rightarrow> (Some (Wrap ''failed to create JWT secret'' err'), w3)
                     | (None, w3) \<Rightarrow> (None, w3))
                  else (Some (Wrap ''failed to get existing secret'' err), w2))
             | Inr existingSecret \<Rightarrow>
                 (case Update_Secret w2 key (existingSecret\<lparr>sec_Data := secretData\<rparr>) of
                    (Some err, w3) \<Rightarrow> (Some (Wrap ''failed to update JWT secret'' err), w3)
                  | (None, w3) \<Rightarrow> (None, w3)))
      in case stored of
           (Some err, w3) \<Rightarrow> (Some err, authConfig, w3)
         | (None, w3) \<Rightarrow>
             (None,
              authConfig\<lparr>cfg_Status := (cfg_Status authConfig)
                           \<lparr>OperatorPubKey := operatorPubKey, ResolverReady := True\<rparr>\<rparr>,
              w3)))))))"

section \<open>A small instance of the libraries\<close>

text \<open>
  To run the model on concrete clusters the library record is instantiated with a small
  stand-in that keeps the shape of the real one: a key pair is its seed; a seed is
  \<open>S\<close>, a role letter and the random bytes; the public key is the seed without its
  leading \<open>S\<close>; a token lists issuer, subject, name and (for accounts) description and
  connection limit, separated by bars, and signing fails for an issuer that contains a bar;
  base64 is the identity.
\<close>

definition sample_FromSeed :: "bytes \<Rightarrow> error + bytes" where
  "sample_FromSeed seed =
     (case seed of
        c # r # rest \<Rightarrow>
          (if c = CHR ''S'' then Inr seed else Inl (Failure ''nkeys: invalid encoded key''))
      | _ \<Rightarrow> Inl (Failure ''nkeys: invalid encoded key''))"

definition sample_limits :: OperatorLimits where
  "sample_limits =
     \<lparr>ol_Conn = - 1, ol_Subs = - 1, ol_Payload = - 1, ol_Data = - 1, ol_Exports = - 1,
      ol_Imports = - 1, ol_WildcardExports = True, ol_MemoryStorage = 0,
      ol_DiskStorage = 0, ol_Streams = 0, ol_Consumer = 0, ol_MaxAckPending = 0,
      ol_MemoryMaxStreamBytes = 0, ol_DiskMaxStreamBytes = 0, ol_MaxBytesRequired = False\<rparr>"

definition sample_sign :: "string \<Rightarrow> string list \<Rightarrow> error + string" where
  "sample_sign issuer parts =
     (if CHR ''|'' \<in> set issuer then Inl (Failure ''jwt: invalid issuer'')
      else Inr (issuer @ concat (map (\<lambda>f. ''|'' @ f) parts)))"

definition sample_issuer :: "string \<Rightarrow> string" where
  "sample_issuer token = takeWhile (\<lambda>c. c \<noteq> CHR ''|'') token"

definition sample_lib :: "bytes libs" where
  "sample_lib =
     \<lparr>FromSeed = sample_FromSeed,
      CreateOperator = (\<lambda>b. Inr (''SO'' @ b)),
      CreateAccount = (\<lambda>b. Inr (''SA'' @ b)),
      CreateUser = (\<lambda>b. Inr (''SU'' @ b)),
      PublicKey = (\<lambda>kp. Inr (tl kp)),
      Seed = (\<lambda>kp. Inr kp),
      NewOperatorClaims =
        (\<lambda>subject. \<lparr>oc_Subject = subject, oc_Name = [], oc_Issuer = [], oc_IssuedAt = 0\<rparr>),
      NewAccountClaims =
        (\<lambda>subject. \<lparr>ac_Subject = subject, ac_Name = [], ac_Description = [],
                      ac_Issuer = [], ac_IssuedAt = 0, ac_Limits = sample_limits\<rparr>),
      NewUserClaims =
        (\<lambda>subject. \<lparr>uc_Subject = subject, uc_Name = [], uc_Issuer = [], uc_IssuedAt = 0,
                      uc_PubAllow = [], uc_PubDeny = [], uc_SubAllow = [], uc_SubDeny = []\<rparr>),
      StringList_Add = (\<lambda>l p. l @ p),
      EncodeOperator = (\<lambda>c kp. sample_sign (oc_Issuer c) [oc_Subject c, oc_Name c]),
      EncodeAccount =
        (\<lambda>c kp. sample_sign (ac_Issuer c)
                   [ac_Subject c, ac_Name c, ac_Description c,
                    if ol_Conn (ac_Limits c) = 100 then ''conn=100''
                    else if ol_Conn (ac_Limits c) = 200 then ''conn=200'' else ''conn=?'']),
      EncodeUser =
        (\<lambda>c kp. sample_sign (uc_Issuer c) ([uc_Subject c, uc_Name c] @ uc_PubAllow c)),
      EncodeToString = (\<lambda>b. b)\<rparr>"

section \<open>Concrete inputs\<close>

definition sample_users :: "TokenUser list" where
  "sample_users =
     [\<lparr>Username = ''pub'', Password = ''pw'', Token = [],
       Permissions = Some \<lparr>PublishAllow = [''events.>''], PublishDeny = [],
                           SubscribeAllow = [], SubscribeDeny = []\<rparr>\<rparr>,
      \<lparr>Username = ''tok'', Password = [], Token = ''abc123'', Permissions = None\<rparr>]"



definition world0 :: world where
  "world0 =
     \<lparr>secrets = Map.empty, configmaps = Map.empty, natsaccounts = [],
      authconfigs = Map.empty,
      read_fault = (\<lambda>k key. None), write_fault = (\<lambda>k key. None),
      scheme_fault = None, writes = [], entropy = [],
      clock = \<lparr>Unix = 0, RFC3339 = ''1970-01-01T00:00:00Z''\<rparr>\<rparr>"

definition sample_userClaims :: UserClaims where
  "sample_userClaims =
     \<lparr>uc_Subject = ''Usvc'', uc_Name = ''svc'', uc_Issuer = ''Aintruder'', uc_IssuedAt = 0,
      uc_PubAllow = [''orders.>''], uc_PubDeny = [], uc_SubAllow = [], uc_SubDeny = []\<rparr>"

definition sample_accountClaims :: AccountClaims where
  "sample_accountClaims =
     \<lparr>ac_Subject = ''Aprod'', ac_Name = ''prod'', ac_Description = [],
      ac_Issuer = ''Ointruder'', ac_IssuedAt = 0, ac_Limits = sample_limits\<rparr>"

text \<open>A cluster whose ConfigMap and Secret \<open>nats/auth\<close> both hold one other entry.\<close>

definition world_conf :: world where
  "world_conf =
     world0\<lparr>configmaps := [(''nats'', ''auth'') \<mapsto> [''other'' \<mapsto> ''x'']],
            secrets := [(''nats'', ''auth'') \<mapsto> [''other'' \<mapsto> ''x'']]\<rparr>"

definition sample_cfg :: NatsAuthConfig where
  "sample_cfg =
     \<lparr>cfg_Name = ''cfg'', cfg_Namespace = ''default'', cfg_Annotations = Map.empty,
      cfg_Spec =
        \<lparr>cs_NatsURL = ''nats://nats:4222'',
         cs_ServerAuthConfig =
           \<lparr>sac_Name = ''nats-auth-jwts'', sac_Namespace = ''default'',
            sac_Key = ''auth.conf'', sac_Type = ''Secret''\<rparr>,
         cs_JWT = Some \<lparr>ResolverDir = ''/var/lib/nats-resolver'',
                        OperatorSeedSecret = None, OperatorName = ''NATS Operator''\<rparr>\<rparr>,
      cfg_Status = \<lparr>OperatorPubKey = [], ResolverReady = False\<rparr>\<rparr>"

text \<open>Flat-mode users: one with \<open>passwordFrom: {generate: false}\<close>, one with no
  \<open>passwordFrom\<close> (the password is generated).\<close>

definition user_nopw :: NatsUser where
  "user_nopw =
     \<lparr>user_Name = ''pub'', user_Namespace = ''default'',
      user_Spec =
        \<lparr>us_AuthConfigRef = \<lparr>acr_Name = ''cfg'', acr_Namespace = []\<rparr>,
         us_AccountRef = None, us_Username = ''pub'',
         us_PasswordFrom = Some \<lparr>Generate = False, ps_SecretRef = None\<rparr>,
         us_Permissions = None, us_ExistingSeedSecret = None\<rparr>,
      user_Status = \<lparr>ust_SecretRef = \<lparr>sr_Name = [], sr_Namespace = []\<rparr>,
                     ust_PublicKey = []\<rparr>\<rparr>"

definition user_pub :: NatsUser where
  "user_pub = user_nopw\<lparr>user_Spec := (user_Spec user_nopw)\<lparr>us_PasswordFrom := None\<rparr>\<rparr>"

text \<open>Clusters, accounts and users for the reconcilers.\<close>

definition limits100 :: AccountLimits where
  "limits100 =
     \<lparr>Conn = 100, Subs = - 1, Payload = - 1, Data = - 1, Exports = - 1, Imports = - 1,
      WildcardExports = True, JetStream = None\<rparr>"

definition account_prod :: NatsAccount where
  "account_prod =
     \<lparr>acct_Name = ''prod'', acct_Namespace = ''default'',
      acct_Spec =
        \<lparr>as_AuthConfigRef = \<lparr>acr_Name = ''cfg'', acr_Namespace = []\<rparr>,
         as_Description = ''production'', as_Limits = Some limits100,
         as_ExistingSeedSecret = None\<rparr>,
      acct_Status =
        \<lparr>ast_AccountID = [], ast_PublicKey = [],
         ast_JWTSecretRef = \<lparr>sr_Name = [], sr_Namespace = []\<rparr>\<rparr>\<rparr>"

definition world_fresh :: world where
  "world_fresh =
     world0\<lparr>secrets := [(''default'', ''cfg-operator-seed'') \<mapsto> [''operator.seed'' \<mapsto> ''SOroot'']],
            authconfigs := [(''default'', ''cfg'') \<mapsto> sample_cfg],
            entropy := [''prod1'', ''prod2'']\<rparr>"

definition limits200 :: AccountLimits where
  "limits200 = limits100\<lparr>Conn := 200\<rparr>"

definition prod_jwt :: string where
  "prod_jwt = ''Oroot|Aprod1|prod|production|conn=100''"

definition account_ready :: NatsAccount where
  "account_ready =
     account_prod\<lparr>acct_Status :=
       \<lparr>ast_AccountID = ''Aprod1'', ast_PublicKey = ''Aprod1'',
        ast_JWTSecretRef = \<lparr>sr_Name = ''prod-account-jwt'', sr_Namespace = ''default''\<rparr>\<rparr>\<rparr>"

definition world_ready :: world where
  "world_ready =
     world0\<lparr>secrets :=
              [(''default'', ''cfg-operator-seed'') \<mapsto> [''operator.seed'' \<mapsto> ''SOroot''],
               (''default'', ''prod-account-jwt'') \<mapsto>
                 [''account.jwt'' \<mapsto> prod_jwt, ''account.seed'' \<mapsto> ''SAprod1'']],
            authconfigs := [(''default'', ''cfg'') \<mapsto> sample_cfg],
            natsaccounts := [account_ready],
            entropy := [''fresh1'', ''fresh2'']\<rparr>"

definition user_svc :: NatsUser where
  "user_svc =
     \<lparr>user_Name = ''svc'', user_Namespace = ''default'',
      user_Spec =
        \<lparr>us_AuthConfigRef = \<lparr>acr_Name = ''cfg'', acr_Namespace = []\<rparr>,
         us_AccountRef = Some \<lparr>nar_Name = ''prod'', nar_Namespace = []\<rparr>,
         us_Username = [], us_PasswordFrom = None,
         us_Permissions = Some \<lparr>PublishAllow = [''orders.>''], PublishDeny = [],
                                SubscribeAllow = [], SubscribeDeny = []\<rparr>,
         us_ExistingSeedSecret = None\<rparr>,
      user_Status = \<lparr>ust_SecretRef = \<lparr>sr_Name = [], sr_Namespace = []\<rparr>,
                     ust_PublicKey = []\<rparr>\<rparr>"

definition user_svc_spec2 :: NatsUserSpec where
  "user_svc_spec2 =
     (user_Spec user_svc)
       \<lparr>us_Permissions := Some \<lparr>PublishAllow = [''orders.>'', ''billing.>''], PublishDeny = [],
                                 SubscribeAllow = [], SubscribeDeny = []\<rparr>\<rparr>"

definition account_operator :: NatsAccount where
  "account_operator =
     \<lparr>acct_Name = ''operator'', acct_Namespace = ''default'',
      acct_Spec =
        \<lparr>as_AuthConfigRef = \<lparr>acr_Name = ''cfg'', acr_Namespace = []\<rparr>,
         as_Description = [], as_Limits = None, as_ExistingSeedSecret = None\<rparr>,
      acct_Status =
        \<lparr>ast_AccountID = ''Aops'', ast_PublicKey = ''Aops'',
         ast_JWTSecretRef = \<lparr>sr_Name = ''operator-account-jwt'',
                              sr_Namespace = ''default''\<rparr>\<rparr>\<rparr>"

definition world_opname :: world where
  "world_opname =
     world0\<lparr>secrets :=
              [(''default'', ''cfg-operator-seed'') \<mapsto> [''operator.seed'' \<mapsto> ''SOroot''],
               (''default'', ''operator-account-jwt'') \<mapsto>
                 [''account.jwt'' \<mapsto> ''Oroot|Aops|operator||conn=?'',
                  ''account.seed'' \<mapsto> ''SAops'']],
            authconfigs := [(''default'', ''cfg'') \<mapsto> sample_cfg],
            natsaccounts := [account_operator],
            entropy := [''fresh1'']\<rparr>"

section \<open>Properties of the renderers\<close>

lemma renderUsersLoop_blocks:
  "renderUsersLoop q (int n) (int k) us = concat (map (userBlock q n) (enumerate k us))"
proof (induction us arbitrary: k)
  case Nil
  show ?case by simp
next
  case (Cons u us)
  have step: "int k + 1 = int (Suc k)" by simp
  have cmp: "(int k < int n - 1) = (Suc k < n)" by linarith
  have blk: "userBlock q n (k, u) =
      ''    {'' @ nl @ renderUserFields q u @
      ''    }'' @ (if Suc k < n then '','' else []) @ nl"
    by (simp add: userBlock_def)
  show ?case
    unfolding renderUsersLoop.simps step Cons.IH
    by (simp add: blk cmp)
qed


text \<open>
  C8: rendering the flat dialect with no users yields the empty string; for a non-empty
  list the output is one authorization block, the header, then one brace-delimited entry
  per user in list order (a comma after every entry but the last), then the footer.
\<close>

theorem RenderTokenAuthConf_blocks:
  "RenderTokenAuthConf q [] = [] \<and>
   (users \<noteq> [] \<longrightarrow>
      RenderTokenAuthConf q users =
        ''authorization {'' @ nl @ ''  users = ['' @ nl @
        concat (map (userBlock q (length users)) (enumerate 0 users)) @
        ''  ]'' @ nl @ ''}'' @ nl
      \<and> length (map (userBlock q (length users)) (enumerate 0 users)) = length users)"
proof -
  have loop: "renderUsersLoop q (int (length users)) 0 users =
      concat (map (userBlock q (length users)) (enumerate 0 users))"
    using renderUsersLoop_blocks [of q "length users" 0 users] by simp
  show ?thesis
    by (simp add: RenderTokenAuthConf_def loop)
qed

theorem RenderTokenAuthConf_blocks_witness:
  "sample_users \<noteq> [] \<and>
   RenderTokenAuthConf Quote_ascii sample_users =
     ''authorization {'' @ nl @ ''  users = ['' @ nl @
     concat (map (userBlock Quote_ascii (length sample_users)) (enumerate 0 sample_users)) @
     ''  ]'' @ nl @ ''}'' @ nl"
  using RenderTokenAuthConf_blocks [of Quote_ascii sample_users]
  by (simp add: sample_users_def)

text \<open>The two sample users, rendered: a password user with one publish subject, a token user.\<close>

lemma RenderTokenAuthConf_sample:
  "RenderTokenAuthConf Quote_ascii sample_users =
     ''authorization {'' @ nl @
     ''  users = ['' @ nl @
     ''    {'' @ nl @
     ''      user: '' @ dq @ ''pub'' @ dq @ nl @
     ''      password: '' @ dq @ ''pw'' @ dq @ nl @
     ''      permissions: {'' @ nl @
     ''        publish: {'' @ nl @
     ''          allow: '' @ dq @ ''events.>'' @ dq @ nl @
     ''        }'' @ nl @
     ''      }'' @ nl @
     ''    },'' @ nl @
     ''    {'' @ nl @
     ''      user: '' @ dq @ ''tok'' @ dq @ nl @
     ''      token: '' @ dq @ ''abc123'' @ dq @ nl @
     ''    }'' @ nl @
     ''  ]'' @ nl @
     ''}'' @ nl"
  by (simp add: RenderTokenAuthConf_def sample_users_def renderUserFields_def
      renderPermissions_def formatSubjectList_def Quote_ascii_def)




section \<open>Properties of the resolver writer\<close>

lemmas client_defs =
  Get_Secret_def Create_Secret_def Update_Secret_def
  Get_ConfigMap_def Create_ConfigMap_def Update_ConfigMap_def merged_def

lemma writeToConfigMap_frame:
  assumes "writeToConfigMap w namespace name key content = (r, w')"
  shows "case r of
           Some e \<Rightarrow> w' = w
         | None \<Rightarrow>
             configmaps w' = (configmaps w)((namespace, name) \<mapsto>
               (case configmaps w (namespace, name) of None \<Rightarrow> Map.empty | Some d \<Rightarrow> d)
                 (key \<mapsto> content))
             \<and> secrets w' = secrets w"
  using assms
  by (auto simp: writeToConfigMap_def client_defs
      split: option.splits sum.splits if_splits)

lemma writeToSecret_frame:
  assumes "writeToSecret w namespace name key content = (r, w')"
  shows "case r of
           Some e \<Rightarrow> w' = w
         | None \<Rightarrow>
             secrets w' = (secrets w)((namespace, name) \<mapsto>
               (case secrets w (namespace, name) of None \<Rightarrow> Map.empty | Some d \<Rightarrow> d)
                 (key \<mapsto> content))
             \<and> configmaps w' = configmaps w"
  using assms
  by (auto simp: writeToSecret_def client_defs
      split: option.splits sum.splits if_splits)

text \<open>
  C9: a successful \<open>WriteResolverConfig\<close> changes, in the whole cluster, only the target
  object of the requested type, whose data afterwards is its former data with the entry
  at the requested key set to the content; when the object did not exist, its data is
  exactly that one entry. A failed call changes nothing.
\<close>

theorem WriteResolverConfig_frame:
  assumes "WriteResolverConfig w namespace name key configType content = (r, w')"
  shows "case r of
           Some e \<Rightarrow> w' = w
         | None \<Rightarrow>
             (if configType = ''Secret'' then
                secrets w' = (secrets w)((namespace, name) \<mapsto>
                  (case secrets w (namespace, name) of None \<Rightarrow> Map.empty | Some d \<Rightarrow> d)
                    (key \<mapsto> content))
                \<and> configmaps w' = configmaps w
              else
                configmaps w' = (configmaps w)((namespace, name) \<mapsto>
                  (case configmaps w (namespace, name) of None \<Rightarrow> Map.empty | Some d \<Rightarrow> d)
                    (key \<mapsto> content))
                \<and> secrets w' = secrets w)"
proof (cases "configType = ''Secret''")
  case True
  with assms have "writeToSecret w namespace name key content = (r, w')"
    by (simp add: WriteResolverConfig_def)
  from writeToSecret_frame [OF this] True show ?thesis
    by (simp split: option.splits)
next
  case False
  with assms have "writeToConfigMap w namespace name key content = (r, w')"
    by (simp add: WriteResolverConfig_def)
  from writeToConfigMap_frame [OF this] False show ?thesis
    by (simp split: option.splits)
qed

theorem WriteResolverConfig_frame_witness:
  "fst (WriteResolverConfig world_conf ''nats'' ''auth'' ''auth.conf'' ''ConfigMap'' ''c'') = None
   \<and> configmaps (snd (WriteResolverConfig world_conf ''nats'' ''auth'' ''auth.conf''
                         ''ConfigMap'' ''c'')) (''nats'', ''auth'')
       = Some [''other'' \<mapsto> ''x'', ''auth.conf'' \<mapsto> ''c'']
   \<and> fst (WriteResolverConfig world0 ''nats'' ''auth'' ''auth.conf'' ''Secret'' ''c'') = None
   \<and> secrets (snd (WriteResolverConfig world0 ''nats'' ''auth'' ''auth.conf''
                      ''Secret'' ''c'')) (''nats'', ''auth'')
       = Some [''auth.conf'' \<mapsto> ''c'']"
proof -
  have f1: "fst (WriteResolverConfig world_conf ''nats'' ''auth'' ''auth.conf''
                   ''ConfigMap'' ''c'') = None"
    by (simp add: WriteResolverConfig_def writeToConfigMap_def client_defs
        world_conf_def world0_def)
  have f2: "fst (WriteResolverConfig world0 ''nats'' ''auth'' ''auth.conf'' ''Secret'' ''c'')
      = None"
    by (simp add: WriteResolverConfig_def writeToSecret_def client_defs world0_def)
  have r1: "WriteResolverConfig world_conf ''nats'' ''auth'' ''auth.conf'' ''ConfigMap'' ''c''
      = (None, snd (WriteResolverConfig world_conf ''nats'' ''auth'' ''auth.conf''
                      ''ConfigMap'' ''c''))"
    using f1 by (simp add: prod_eq_iff)
  have r2: "WriteResolverConfig world0 ''nats'' ''auth'' ''auth.conf'' ''Secret'' ''c''
      = (None, snd (WriteResolverConfig world0 ''nats'' ''auth'' ''auth.conf'' ''Secret'' ''c''))"
    using f2 by (simp add: prod_eq_iff)
  have c1: "configmaps world_conf (''nats'', ''auth'') = Some [''other'' \<mapsto> ''x'']"
    by (simp add: world_conf_def world0_def)
  have c2: "secrets world0 (''nats'', ''auth'') = None"
    by (simp add: world0_def)
  from WriteResolverConfig_frame [OF r1] WriteResolverConfig_frame [OF r2] f1 f2 c1 c2
  show ?thesis by simp
qed

section \<open>Properties of the key managers and signers\<close>

lemma sample_issuer_sign:
  "sample_sign issuer parts = Inr t \<Longrightarrow> sample_issuer t = issuer"
proof -
  assume a: "sample_sign issuer parts = Inr t"
  then have nb: "CHR ''|'' \<notin> set issuer" and t: "t = issuer @ concat (map (\<lambda>f. ''|'' @ f) parts)"
    by (auto simp: sample_sign_def split: if_splits)
  have ok: "\<And>x. x \<in> set issuer \<Longrightarrow> x \<noteq> CHR ''|''"
    using nb by auto
  have tw: "takeWhile (\<lambda>c. c \<noteq> CHR ''|'') (issuer @ rest) = issuer"
    if "rest = [] \<or> hd rest = CHR ''|''" for rest
    using that ok by (cases rest) (simp_all add: takeWhile_append2 [OF ok])
  have "concat (map (\<lambda>f. ''|'' @ f) parts) = [] \<or> hd (concat (map (\<lambda>f. ''|'' @ f) parts)) = CHR ''|''"
    by (cases parts) auto
  from tw [OF this] show ?thesis by (simp add: sample_issuer_def t)
qed

text \<open>
  C1: the token returned by \<open>SignUserJWT\<close> carries the account's public key as its issuer,
  and the token returned by \<open>SignAccountJWT\<close> the operator's, whatever issuer the claims
  held before the call. The issuer of a token is read by any decoder that returns the
  issuer of the claims that were encoded.
\<close>

theorem sign_issuer_is_parent:
  assumes user_dec: "\<And>c k t. EncodeUser lib c k = Inr t \<Longrightarrow> userIssuer t = uc_Issuer c"
      and account_dec: "\<And>c k t. EncodeAccount lib c k = Inr t \<Longrightarrow> accountIssuer t = ac_Issuer c"
  shows "(SignUserJWT lib am (userClaims\<lparr>uc_Issuer := pre\<rparr>) = Inr utok \<longrightarrow>
            AccountManager_GetPublicKey lib am = Inr (userIssuer utok))
       \<and> (SignAccountJWT lib om (accountClaims\<lparr>ac_Issuer := pre'\<rparr>) = Inr atok \<longrightarrow>
            OperatorManager_GetPublicKey lib om = Inr (accountIssuer atok))"
proof (intro conjI impI)
  assume s: "SignUserJWT lib am (userClaims\<lparr>uc_Issuer := pre\<rparr>) = Inr utok"
  then obtain pk where pk: "PublicKey lib (accountKP am) = Inr pk"
    and enc: "EncodeUser lib (userClaims\<lparr>uc_Issuer := pk\<rparr>) (accountKP am) = Inr utok"
    by (auto simp: SignUserJWT_def split: sum.splits)
  from user_dec [OF enc] have "userIssuer utok = pk" by simp
  with pk show "AccountManager_GetPublicKey lib am = Inr (userIssuer utok)"
    by (simp add: AccountManager_GetPublicKey_def)
next
  assume s: "SignAccountJWT lib om (accountClaims\<lparr>ac_Issuer := pre'\<rparr>) = Inr atok"
  then obtain pk where pk: "PublicKey lib (operatorKP om) = Inr pk"
    and enc: "EncodeAccount lib (accountClaims\<lparr>ac_Issuer := pk\<rparr>) (operatorKP om) = Inr atok"
    by (auto simp: SignAccountJWT_def split: sum.splits)
  from account_dec [OF enc] have "accountIssuer atok = pk" by simp
  with pk show "OperatorManager_GetPublicKey lib om = Inr (accountIssuer atok)"
    by (simp add: OperatorManager_GetPublicKey_def)
qed

theorem sign_issuer_is_parent_witness:
  "SignUserJWT sample_lib \<lparr>accountKP = ''SAprod''\<rparr> (sample_userClaims\<lparr>uc_Issuer := ''Aintruder''\<rparr>)
     = Inr ''Aprod|Usvc|svc|orders.>''
   \<and> AccountManager_GetPublicKey sample_lib \<lparr>accountKP = ''SAprod''\<rparr>
     = Inr (sample_issuer ''Aprod|Usvc|svc|orders.>'')
   \<and> SignAccountJWT sample_lib \<lparr>operatorKP = ''SOroot'', operatorJWT = []\<rparr>
        (sample_accountClaims\<lparr>ac_Issuer := ''Ointruder''\<rparr>)
     = Inr ''Oroot|Aprod|prod||conn=?''
   \<and> OperatorManager_GetPublicKey sample_lib \<lparr>operatorKP = ''SOroot'', operatorJWT = []\<rparr>
     = Inr (sample_issuer ''Oroot|Aprod|prod||conn=?'')"
proof -
  have u: "\<And>c k t. EncodeUser sample_lib c k = Inr t \<Longrightarrow> sample_issuer t = uc_Issuer c"
    by (simp add: sample_lib_def sample_issuer_sign)
  have a: "\<And>c k t. EncodeAccount sample_lib c k = Inr t \<Longrightarrow> sample_issuer t = ac_Issuer c"
    by (simp add: sample_lib_def sample_issuer_sign)
  have su: "SignUserJWT sample_lib \<lparr>accountKP = ''SAprod''\<rparr>
              (sample_userClaims\<lparr>uc_Issuer := ''Aintruder''\<rparr>) = Inr ''Aprod|Usvc|svc|orders.>''"
    by (simp add: SignUserJWT_def sample_lib_def sample_sign_def sample_userClaims_def)
  have sa: "SignAccountJWT sample_lib \<lparr>operatorKP = ''SOroot'', operatorJWT = []\<rparr>
        (sample_accountClaims\<lparr>ac_Issuer := ''Ointruder''\<rparr>) = Inr ''Oroot|Aprod|prod||conn=?''"
    by (simp add: SignAccountJWT_def sample_lib_def sample_sign_def sample_accountClaims_def
        sample_limits_def)
  from sign_issuer_is_parent [where lib = sample_lib and userIssuer = sample_issuer
        and accountIssuer = sample_issuer and am = "\<lparr>accountKP = ''SAprod''\<rparr>"
        and userClaims = sample_userClaims and pre = "''Aintruder''"
        and utok = "''Aprod|Usvc|svc|orders.>''"
        and om = "\<lparr>operatorKP = ''SOroot'', operatorJWT = []\<rparr>"
        and accountClaims = sample_accountClaims and pre' = "''Ointruder''"
        and atok = "''Oroot|Aprod|prod||conn=?''", OF u a] su sa
  show ?thesis by simp
qed

text \<open>
  C5: for a non-empty seed, two constructions of a manager from that seed, in whatever
  state of randomness and clock, have the same public key; and when the seed is rejected
  by \<open>nkeys.FromSeed\<close> the construction fails with that error, wrapped.
\<close>

theorem managers_from_seed_deterministic:
  assumes "seed \<noteq> []"
  shows "(\<forall>am am'. fst (NewAccountManager lib w seed) = Inr am
              \<and> fst (NewAccountManager lib w' seed) = Inr am'
            \<longrightarrow> AccountManager_GetPublicKey lib am = AccountManager_GetPublicKey lib am')
       \<and> (\<forall>om om'. fst (NewOperatorManager lib w seed name) = Inr om
              \<and> fst (NewOperatorManager lib w' seed name') = Inr om'
            \<longrightarrow> OperatorManager_GetPublicKey lib om = OperatorManager_GetPublicKey lib om')
       \<and> (\<forall>um um'. fst (NewUserManager lib w seed) = Inr um
              \<and> fst (NewUserManager lib w' seed) = Inr um'
            \<longrightarrow> UserManager_GetPublicKey lib um = UserManager_GetPublicKey lib um')
       \<and> (\<forall>e. FromSeed lib seed = Inl e \<longrightarrow>
              fst (NewAccountManager lib w seed) = Inl (Wrap ''failed to create keypair from seed'' e)
            \<and> fst (NewOperatorManager lib w seed name) = Inl (Wrap ''failed to create keypair from seed'' e)
            \<and> fst (NewUserManager lib w seed) = Inl (Wrap ''failed to create keypair from seed'' e))"
  using assms
  by (auto simp: NewAccountManager_def NewOperatorManager_def NewUserManager_def
      signOperator_def Let_def
      AccountManager_GetPublicKey_def OperatorManager_GetPublicKey_def UserManager_GetPublicKey_def
      split: sum.splits)

theorem managers_from_seed_deterministic_witness:
  "''SAprod'' \<noteq> []
   \<and> fst (NewAccountManager sample_lib world0 ''SAprod'') = Inr \<lparr>accountKP = ''SAprod''\<rparr>
   \<and> fst (NewAccountManager sample_lib (world0\<lparr>entropy := [''r'']\<rparr>) ''SAprod'')
       = Inr \<lparr>accountKP = ''SAprod''\<rparr>
   \<and> AccountManager_GetPublicKey sample_lib \<lparr>accountKP = ''SAprod''\<rparr> = Inr ''Aprod''
   \<and> FromSeed sample_lib ''XAprod'' = Inl (Failure ''nkeys: invalid encoded key'')
   \<and> fst (NewUserManager sample_lib world0 ''XAprod'')
       = Inl (Wrap ''failed to create keypair from seed'' (Failure ''nkeys: invalid encoded key''))"
proof -
  have ne: "''SAprod'' \<noteq> []" and ne': "''XAprod'' \<noteq> []" by simp_all
  have bad: "FromSeed sample_lib ''XAprod'' = Inl (Failure ''nkeys: invalid encoded key'')"
    by (simp add: sample_lib_def sample_FromSeed_def)
  have a1: "fst (NewAccountManager sample_lib world0 ''SAprod'') = Inr \<lparr>accountKP = ''SAprod''\<rparr>"
    by (simp add: NewAccountManager_def sample_lib_def sample_FromSeed_def)
  have a2: "fst (NewAccountManager sample_lib (world0\<lparr>entropy := [''r'']\<rparr>) ''SAprod'')
       = Inr \<lparr>accountKP = ''SAprod''\<rparr>"
    by (simp add: NewAccountManager_def sample_lib_def sample_FromSeed_def)
  have pk: "AccountManager_GetPublicKey sample_lib \<lparr>accountKP = ''SAprod''\<rparr> = Inr ''Aprod''"
    by (simp add: AccountManager_GetPublicKey_def sample_lib_def)
  from managers_from_seed_deterministic [OF ne', where lib = sample_lib and w = world0] bad
  have "fst (NewUserManager sample_lib world0 ''XAprod'')
       = Inl (Wrap ''failed to create keypair from seed'' (Failure ''nkeys: invalid encoded key''))"
    by blast
  with ne bad a1 a2 pk show ?thesis by simp
qed

section \<open>Properties of the reconcilers\<close>

lemma rand_Read_frame:
  "rand_Read w n = (r, w1) \<Longrightarrow>
     secrets w1 = secrets w \<and> read_fault w1 = read_fault w \<and> write_fault w1 = write_fault w
     \<and> scheme_fault w1 = scheme_fault w \<and> writes w1 = writes w"
  by (auto simp: rand_Read_def split: list.splits)

lemma tokenUsername_frame:
  "tokenUsername lib w user = (r, w1) \<Longrightarrow>
     secrets w1 = secrets w \<and> read_fault w1 = read_fault w \<and> write_fault w1 = write_fault w
     \<and> scheme_fault w1 = scheme_fault w \<and> writes w1 = writes w"
  by (auto simp: tokenUsername_def GenerateUsername_def GenerateToken_def Let_def
      split: if_splits prod.splits sum.splits dest: rand_Read_frame)

lemma tokenPassword_fixed:
  assumes pf: "us_PasswordFrom (user_Spec user) = Some pf"
      and ng: "\<not> Generate pf"
      and src: "case ps_SecretRef pf of
                  None \<Rightarrow> True
                | Some ref \<Rightarrow>
                    (case secrets w (sr_Namespace ref, sr_Name ref) of
                       None \<Rightarrow> False
                     | Some d \<Rightarrow> d ''password'' = None)"
      and rf: "\<And>key. read_fault w KSecret key = None"
  shows "tokenPassword lib w user = (Inr [], w)"
  using assms
  by (auto simp: tokenPassword_def Get_Secret_def at_def split: option.splits)

text \<open>
  C10: a flat-mode user whose \<open>passwordFrom\<close> has \<open>generate\<close> false and either no
  \<open>secretRef\<close> or a referenced secret without a \<open>password\<close> entry is reconciled without
  error (given that the username is determined, the API server answers and the owner
  reference can be set), and the
  credentials secret then holds an empty password: \<open>PASSWORD\<close> reads as the empty string,
  and is stored as the empty string whenever the secret did not exist before.
\<close>

theorem reconcileTokenUser_empty_password:
  assumes pf: "us_PasswordFrom (user_Spec user) = Some pf"
      and ng: "\<not> Generate pf"
      and src: "case ps_SecretRef pf of
                  None \<Rightarrow> True
                | Some ref \<Rightarrow>
                    (case secrets w (sr_Namespace ref, sr_Name ref) of
                       None \<Rightarrow> False
                     | Some d \<Rightarrow> d ''password'' = None)"
      and un: "fst (tokenUsername lib w user) = Inr username"
      and rf: "\<And>key. read_fault w KSecret key = None"
      and wf: "write_fault w KSecret (user_Namespace user, user_Name user @ ''-user-creds'') = None"
      and sf: "scheme_fault w = None"
  shows "case reconcileTokenUser lib w user authConfig of
           (r, user', w') \<Rightarrow>
             r = None \<and>
             (case secrets w' (user_Namespace user, user_Name user @ ''-user-creds'') of
                None \<Rightarrow> False
              | Some d \<Rightarrow>
                  at d ''PASSWORD'' = [] \<and>
                  (secrets w (user_Namespace user, user_Name user @ ''-user-creds'') = None
                     \<longrightarrow> d ''PASSWORD'' = Some []))"
proof -
  obtain w1 where u: "tokenUsername lib w user = (Inr username, w1)"
    using un by (cases "tokenUsername lib w user") auto
  note fr = tokenUsername_frame [OF u]
  have src1: "case ps_SecretRef pf of
                  None \<Rightarrow> True
                | Some ref \<Rightarrow>
                    (case secrets w1 (sr_Namespace ref, sr_Name ref) of
                       None \<Rightarrow> False
                     | Some d \<Rightarrow> d ''password'' = None)"
    using src fr by (auto split: option.splits)
  have rf1: "\<And>key. read_fault w1 KSecret key = None" using rf fr by simp
  have p: "tokenPassword lib w1 user = (Inr [], w1)"
    by (rule tokenPassword_fixed [OF pf ng src1 rf1])
  have wf1: "write_fault w1 KSecret (user_Namespace user, user_Name user @ ''-user-creds'') = None"
    using wf fr by simp
  have sf1: "SetControllerReference w1 = None"
    using sf fr by (simp add: SetControllerReference_def)
  show ?thesis
    using rf1 wf1 fr
    by (auto simp: reconcileTokenUser_def u p sf1 Let_def client_defs at_def
        split: option.splits)
qed

theorem reconcileTokenUser_empty_password_witness:
  "us_PasswordFrom (user_Spec user_nopw) = Some \<lparr>Generate = False, ps_SecretRef = None\<rparr>
   \<and> fst (tokenUsername sample_lib world0 user_nopw) = Inr ''pub''
   \<and> fst (reconcileTokenUser sample_lib world0 user_nopw sample_cfg) = None
   \<and> map_option (\<lambda>d. d ''PASSWORD'')
        (secrets (snd (snd (reconcileTokenUser sample_lib world0 user_nopw sample_cfg)))
           (''default'', ''pub-user-creds'')) = Some (Some [])"
proof -
  have pf: "us_PasswordFrom (user_Spec user_nopw) = Some \<lparr>Generate = False, ps_SecretRef = None\<rparr>"
    by (simp add: user_nopw_def)
  have ng: "\<not> Generate \<lparr>Generate = False, ps_SecretRef = None\<rparr>" by simp
  have src: "case ps_SecretRef \<lparr>Generate = False, ps_SecretRef = None\<rparr> of
                  None \<Rightarrow> True
                | Some ref \<Rightarrow>
                    (case secrets world0 (sr_Namespace ref, sr_Name ref) of
                       None \<Rightarrow> False
                     | Some d \<Rightarrow> d ''password'' = None)"
    by simp
  have un: "fst (tokenUsername sample_lib world0 user_nopw) = Inr ''pub''"
    by (simp add: tokenUsername_def user_nopw_def)
  have rf: "\<And>key. read_fault world0 KSecret key = None" by (simp add: world0_def)
  have wf: "write_fault world0 KSecret (user_Namespace user_nopw, user_Name user_nopw @ ''-user-creds'') = None"
    by (simp add: world0_def)
  have sf: "scheme_fault world0 = None" by (simp add: world0_def)
  have none: "secrets world0 (user_Namespace user_nopw, user_Name user_nopw @ ''-user-creds'') = None"
    by (simp add: world0_def)
  have key: "(user_Namespace user_nopw, user_Name user_nopw @ ''-user-creds'') = (''default'', ''pub-user-creds'')"
    by (simp add: user_nopw_def)
  from reconcileTokenUser_empty_password [OF pf ng src un rf wf sf, of sample_cfg] none
  have "fst (reconcileTokenUser sample_lib world0 user_nopw sample_cfg) = None
   \<and> map_option (\<lambda>d. d ''PASSWORD'')
        (secrets (snd (snd (reconcileTokenUser sample_lib world0 user_nopw sample_cfg)))
           (user_Namespace user_nopw, user_Name user_nopw @ ''-user-creds'')) = Some (Some [])"
    by (auto split: prod.splits option.splits)
  with pf un key show ?thesis by simp
qed

text \<open>
  What the guards and the seed and password sources depend on, for any library: the two
  guards do not look at the declared state; without \<open>existingSeedSecret\<close> the account
  seed is drawn fresh, whatever the cluster stores; a generated password is drawn on each
  call; the aggregate is the operator entry overlaid with the accounts' entries by name.
\<close>

lemma accountUpToDate_spec:
  "accountUpToDate lib (a\<lparr>acct_Spec := spec\<rparr>) s = accountUpToDate lib a s"
  by (auto simp: accountUpToDate_def split: sum.splits)

lemma reconcileAccount_skips_for_any_spec:
  assumes "Get_Secret w (acct_Namespace a, acct_Name a @ ''-account-jwt'') = Inr s"
      and "accountUpToDate lib a s"
  shows "reconcileAccount lib w (a\<lparr>acct_Spec := spec\<rparr>) cfg = (None, a\<lparr>acct_Spec := spec\<rparr>, w)"
  using assms by (simp add: reconcileAccount_def accountUpToDate_spec)

lemma reconcileJWTUser_skips_for_any_permissions:
  assumes "us_AccountRef (user_Spec u) = Some ref"
      and "getAccount w u = Inr account"
      and "ast_AccountID (acct_Status account) \<noteq> []"
      and "Get_Secret w (user_Namespace u, user_Name u @ ''-user-creds'') = Inr s"
      and "ust_PublicKey (user_Status u) \<noteq> []"
      and "length (at (sec_Data s) ''user.creds'') > 0"
  shows "reconcileJWTUser lib w
           (u\<lparr>user_Spec := (user_Spec u)\<lparr>us_Permissions := p, us_Username := n\<rparr>\<rparr>) cfg
         = (None, u\<lparr>user_Spec := (user_Spec u)\<lparr>us_Permissions := p, us_Username := n\<rparr>\<rparr>, w)"
  using assms by (auto simp: reconcileJWTUser_def getAccount_def Let_def split: if_splits)

lemma getOrCreateAccountSeed_fresh:
  assumes "as_ExistingSeedSecret (acct_Spec a) = None"
      and "entropy w = b # bs"
      and "CreateAccount lib (take 32 b) = Inr kp"
      and "Seed lib kp = Inr seed"
  shows "getOrCreateAccountSeed lib w a = (Inr seed, w\<lparr>entropy := bs\<rparr>)"
  using assms
  by (simp add: getOrCreateAccountSeed_def NewAccountManager_def nkeys_Create_def rand_Read_def)

lemma tokenPassword_generated:
  assumes "us_PasswordFrom (user_Spec u) = None"
      and "entropy w = b # bs"
  shows "tokenPassword lib w u = (Inr (EncodeToString lib (take 24 b)), w\<lparr>entropy := bs\<rparr>)"
  using assms
  by (simp add: tokenPassword_def GeneratePassword_def GenerateToken_def rand_Read_def)

lemma addAccountKeys_other:
  "k \<notin> AccountName ` set accs \<Longrightarrow> addAccountKeys m accs k = m k"
  by (induction accs arbitrary: m) auto

lemma addAccountKeys_named:
  "k \<in> AccountName ` set accs \<Longrightarrow>
     \<exists>acc \<in> set accs. AccountName acc = k \<and> addAccountKeys m accs k = Some (JWT acc)"
proof (induction accs arbitrary: m)
  case Nil
  then show ?case by simp
next
  case (Cons a accs)
  show ?case
  proof (cases "k \<in> AccountName ` set accs")
    case True
    from Cons.IH [OF True, of "m(AccountName a \<mapsto> JWT a)"]
    obtain acc where acc: "acc \<in> set accs" "AccountName acc = k"
        "addAccountKeys (m(AccountName a \<mapsto> JWT a)) accs k = Some (JWT acc)"
      by blast
    show ?thesis
    proof (rule bexI [of _ acc])
      show "AccountName acc = k \<and> addAccountKeys m (a # accs) k = Some (JWT acc)"
        using acc by simp
      show "acc \<in> set (a # accs)" using acc by simp
    qed
  next
    case False
    with Cons.prems have k: "AccountName a = k" by auto
    have "addAccountKeys (m(AccountName a \<mapsto> JWT a)) accs k = Some (JWT a)"
      using False k by (simp add: addAccountKeys_other)
    then show ?thesis using k by simp
  qed
qed


lemma reconcileJWTMode_aggregate:
  assumes seed: "getOrCreateOperatorSeed lib w cfg = (Inr seed, w1)"
      and jwt: "cs_JWT (cfg_Spec cfg) = Some jwt"
      and om: "NewOperatorManager lib w1 seed
                 (if OperatorName jwt \<noteq> [] then OperatorName jwt else ''NATS Operator'')
               = (Inr om, w2)"
      and pk: "PublicKey lib (operatorKP om) = Inr pk"
      and accs: "collectAccountJWTs w2 cfg = Inr accounts"
      and rf: "read_fault w2 KSecret (sac_Namespace (cs_ServerAuthConfig (cfg_Spec cfg)),
                                      sac_Name (cs_ServerAuthConfig (cfg_Spec cfg))) = None"
      and wf: "write_fault w2 KSecret (sac_Namespace (cs_ServerAuthConfig (cfg_Spec cfg)),
                                       sac_Name (cs_ServerAuthConfig (cfg_Spec cfg))) = None"
  shows "fst (reconcileJWTMode lib w cfg) = None
       \<and> secrets (snd (snd (reconcileJWTMode lib w cfg)))
            (sac_Namespace (cs_ServerAuthConfig (cfg_Spec cfg)),
             sac_Name (cs_ServerAuthConfig (cfg_Spec cfg)))
           = Some (addAccountKeys [''operator'' \<mapsto> operatorJWT om] accounts)"
  using rf wf
  by (cases "secrets w2 (sac_Namespace (cs_ServerAuthConfig (cfg_Spec cfg)),
                         sac_Name (cs_ServerAuthConfig (cfg_Spec cfg)))")
     (simp_all add: reconcileJWTMode_def seed jwt om pk accs Let_def
        Get_Secret_def Create_Secret_def Update_Secret_def merged_def)

section \<open>The reconcilers on concrete clusters\<close>

lemmas lib_defs =
  sample_lib_def sample_FromSeed_def sample_sign_def sample_limits_def

lemmas store_defs =
  Get_Secret_def Create_Secret_def Update_Secret_def merged_def at_def
  Get_NatsAccount_def List_NatsAccounts_def Update_NatsAuthConfig_def rand_Read_def
  nkeys_Create_def SetControllerReference_def

lemmas jwt_defs =
  NewAccountManager_def NewUserManager_def NewOperatorManager_def signOperator_def
  CreateAccountClaims_def CreateUserClaims_def SignUserJWT_def SignAccountJWT_def
  GenerateCredsFile_def GenerateToken_def GeneratePassword_def GenerateUsername_def

lemmas account_defs =
  reconcileAccount_def issueAccount_def accountUpToDate_def getOrCreateAccountSeed_def
  getOperatorSeed_def triggerAuthConfigReconcile_def

lemmas user_defs =
  reconcileJWTUser_def issueUser_def getOrCreateUserSeed_def getAccount_def
  getAccountSeed_def reconcileTokenUser_def tokenUsername_def tokenPassword_def

lemmas config_defs =
  reconcileJWTMode_def collectAccountJWTs_def getOrCreateOperatorSeed_def

lemmas input_defs =
  world0_def world_fresh_def world_ready_def world_opname_def sample_cfg_def
  account_prod_def account_ready_def account_operator_def limits100_def limits200_def
  prod_jwt_def user_svc_def user_svc_spec2_def user_nopw_def user_pub_def

text \<open>
  C2 says that a reconciliation that finds a stored seed never mints a new one: when the
  seed's public id differs from the status, the key pair is re-derived from the stored
  seed. The code does otherwise. With the secret \<open>prod-account-jwt\<close> holding the seed
  \<open>SAprod1\<close> (public id \<open>Aprod1\<close>), no \<open>existingSeedSecret\<close> declared and the status
  recording \<open>Astale\<close>, \<open>reconcileAccount\<close> falls through to \<open>getOrCreateAccountSeed\<close>,
  which never reads that secret: a new key pair is drawn, the stored seed is overwritten
  and the status becomes the new key's id.
\<close>

theorem stale_account_gets_fresh_seed:
  "case reconcileAccount sample_lib world_ready
          (account_ready\<lparr>acct_Status := (acct_Status account_ready)
                            \<lparr>ast_AccountID := ''Astale''\<rparr>\<rparr>) sample_cfg of
     (r, a, w) \<Rightarrow>
       r = None
       \<and> map_option (\<lambda>d. d ''account.seed'') (secrets world_ready (''default'', ''prod-account-jwt''))
           = Some (Some ''SAprod1'')
       \<and> FromSeed sample_lib ''SAprod1'' = Inr ''SAprod1''
       \<and> PublicKey sample_lib ''SAprod1'' = Inr ''Aprod1''
       \<and> map_option (\<lambda>d. d ''account.seed'') (secrets w (''default'', ''prod-account-jwt''))
           = Some (Some ''SAfresh1'')
       \<and> ast_AccountID (acct_Status a) = ''Afresh1''"
  by (simp add: account_defs jwt_defs store_defs lib_defs input_defs Let_def)

text \<open>
  C3 says that a change of the declared state re-signs the token. The code does
  otherwise. After a first reconcile has stored the token and set the status, a second
  reconcile of the account with other limits and another description, and of the user
  with another publish permission, returns at the guard: nothing is written, and the
  stored token is still the one signed for the former state.
\<close>

theorem changed_spec_not_resigned:
  "(case reconcileAccount sample_lib world_fresh account_prod sample_cfg of
      (r1, a1, w1) \<Rightarrow>
        r1 = None
        \<and> ast_AccountID (acct_Status a1) = ''Aprod1''
        \<and> map_option (\<lambda>d. d ''account.jwt'') (secrets w1 (''default'', ''prod-account-jwt''))
            = Some (Some ''Oroot|Aprod1|prod|production|conn=100'')
        \<and> (case reconcileAccount sample_lib w1
                   (a1\<lparr>acct_Spec := (acct_Spec a1)\<lparr>as_Limits := Some limits200,
                                                    as_Description := ''production v2''\<rparr>\<rparr>)
                   sample_cfg of
              (r2, a2, w2) \<Rightarrow>
                r2 = None \<and> writes w2 = writes w1
                \<and> ast_AccountID (acct_Status a2) = ''Aprod1''
                \<and> map_option (\<lambda>d. d ''account.jwt'')
                     (secrets w2 (''default'', ''prod-account-jwt''))
                    = Some (Some ''Oroot|Aprod1|prod|production|conn=100'')))
   \<and> (case reconcileJWTUser sample_lib world_ready user_svc sample_cfg of
      (r1, u1, w1) \<Rightarrow>
        r1 = None
        \<and> ust_PublicKey (user_Status u1) = ''Ufresh1''
        \<and> map_option (\<lambda>d. d ''user.jwt'') (secrets w1 (''default'', ''svc-user-creds''))
            = Some (Some ''Aprod1|Ufresh1|svc|orders.>'')
        \<and> (case reconcileJWTUser sample_lib w1 (u1\<lparr>user_Spec := user_svc_spec2\<rparr>) sample_cfg of
              (r2, u2, w2) \<Rightarrow>
                r2 = None \<and> writes w2 = writes w1
                \<and> ust_PublicKey (user_Status u2) = ''Ufresh1''
                \<and> map_option (\<lambda>d. d ''user.jwt'')
                     (secrets w2 (''default'', ''svc-user-creds''))
                    = Some (Some ''Aprod1|Ufresh1|svc|orders.>'')))"
  by (simp add: account_defs user_defs jwt_defs store_defs lib_defs input_defs Let_def)

text \<open>
  C4 says that a second reconcile with nothing changed writes nothing, and that a generated
  password is written once. The code does otherwise for a flat-mode user whose password is
  generated: every reconcile draws a new password before it compares, so the second pass
  finds the stored password different and updates the secret.
\<close>

theorem generated_password_rotates:
  "case reconcileTokenUser sample_lib (world0\<lparr>entropy := [''pw-one'', ''pw-two'']\<rparr>)
          user_pub sample_cfg of
     (r1, u1, w1) \<Rightarrow>
       r1 = None
       \<and> writes w1 = [(Create, KSecret, (''default'', ''pub-user-creds''))]
       \<and> map_option (\<lambda>d. d ''PASSWORD'') (secrets w1 (''default'', ''pub-user-creds''))
           = Some (Some ''pw-one'')
       \<and> (case reconcileTokenUser sample_lib w1 u1 sample_cfg of
             (r2, u2, w2) \<Rightarrow>
               r2 = None
               \<and> writes w2 = [(Create, KSecret, (''default'', ''pub-user-creds'')),
                              (Update, KSecret, (''default'', ''pub-user-creds''))]
               \<and> map_option (\<lambda>d. d ''PASSWORD'') (secrets w2 (''default'', ''pub-user-creds''))
                   = Some (Some ''pw-two''))"
  by (simp add: user_defs jwt_defs store_defs lib_defs input_defs Let_def)

theorem generated_password_rotates_witness:
  "fst (reconcileTokenUser sample_lib (world0\<lparr>entropy := [''pw-one'', ''pw-two'']\<rparr>)
          user_pub sample_cfg) = None"
  using generated_password_rotates by (simp split: prod.splits)

text \<open>
  C6 says that the aggregate secret holds the operator token and one entry per account,
  keyed by the account's name. The code stores the operator token under the key
  \<open>operator\<close> and then the account tokens under the accounts' names in the same map: an
  account named \<open>operator\<close> replaces the operator token, and the aggregate of a successful
  reconcile holds no operator token at all.
\<close>

theorem account_named_operator_replaces_operator_token:
  "case reconcileJWTMode sample_lib world_opname sample_cfg of
     (r, c, w) \<Rightarrow>
       r = None
       \<and> OperatorPubKey (cfg_Status c) = ''Oroot''
       \<and> secrets w (''default'', ''nats-auth-jwts'')
           = Some [''operator'' \<mapsto> ''Oroot|Aops|operator||conn=?'']"
  by (simp add: config_defs jwt_defs store_defs lib_defs input_defs Let_def)

end
